theory Spec2Isabelle
  imports Complex_Main "HOL-Library.List_Lexorder" "HOL-Library.Char_ord"
begin

section \<open>Errors\<close>

text \<open>
  The error objects that travel through the retry engine (\<open>errors/api-error.ts\<close> and raw
  transport errors).  Only the fields that the orchestration code inspects are kept:
  \<open>error.code\<close>, \<open>error.response?.status\<close>, \<open>error.status\<close>, the message, the
  response data and \<open>error.response?.data?.message\<close>.  A JavaScript \<open>number\<close> holding
  a status is an \<open>int\<close>; \<open>undefined\<close> is \<open>None\<close>.
\<close>

record api_error =
  err_code :: "string option"
  err_response_status :: "int option"
  err_status :: "int option"
  err_message :: string
  err_data :: "string option"
  err_response_message :: "string option"

text \<open>JavaScript truthiness of an optional number and of an optional string.\<close>

definition truthy_num :: "int option \<Rightarrow> bool" where
  "truthy_num x = (case x of None \<Rightarrow> False | Some n \<Rightarrow> n \<noteq> 0)"

definition truthy_str :: "string option \<Rightarrow> bool" where
  "truthy_str x = (case x of None \<Rightarrow> False | Some s \<Rightarrow> s \<noteq> [])"

text \<open>\<open>a || b\<close> on optional numbers.\<close>

definition js_or_num :: "int option \<Rightarrow> int option \<Rightarrow> int option" where
  "js_or_num a b = (if truthy_num a then a else b)"

section \<open>Numbers\<close>

text \<open>
  A JavaScript \<open>number\<close> is a binary64 value: the operations round, overflow to an
  infinity and can yield \<open>NaN\<close>, and the accuracy of \<open>Math.pow\<close> is left to the
  implementation.  The operations that the retry engine applies to delays are therefore
  parameters: an arithmetic is a record of them over a type \<open>'n\<close> of numbers.
  \<open>n_int k\<close> is the number an integer literal or counter \<open>k\<close> denotes, \<open>n_tenth\<close> and
  \<open>n_half\<close> are the literals \<open>0.1\<close> and \<open>0.5\<close>, \<open>n_pow x k\<close> is \<open>Math.pow(x, k)\<close> at an
  integral exponent, \<open>n_min\<close> and \<open>n_max\<close> are \<open>Math.min\<close> and \<open>Math.max\<close>, \<open>n_truthy\<close> is
  the truthiness of a number (neither zero nor \<open>NaN\<close>), and \<open>n_val x\<close> is the real number
  that a finite \<open>x\<close> denotes.
\<close>

record 'n arith =
  n_int :: "int \<Rightarrow> 'n"
  n_tenth :: 'n
  n_half :: 'n
  n_add :: "'n \<Rightarrow> 'n \<Rightarrow> 'n"
  n_sub :: "'n \<Rightarrow> 'n \<Rightarrow> 'n"
  n_mul :: "'n \<Rightarrow> 'n \<Rightarrow> 'n"
  n_div :: "'n \<Rightarrow> 'n \<Rightarrow> 'n"
  n_pow :: "'n \<Rightarrow> int \<Rightarrow> 'n"
  n_min :: "'n \<Rightarrow> 'n \<Rightarrow> 'n"
  n_max :: "'n \<Rightarrow> 'n \<Rightarrow> 'n"
  n_truthy :: "'n \<Rightarrow> bool"
  n_val :: "'n \<Rightarrow> real"

text \<open>
  The arithmetic without rounding, on the reals.  It evaluates the definitions at
  concrete inputs; at the inputs used below every intermediate result of the binary64
  computation is the exact one, so that the two arithmetics agree there.
\<close>

definition exact_arith :: "real arith" where
  "exact_arith =
     \<lparr> n_int = of_int, n_tenth = 1 / 10, n_half = 1 / 2,
       n_add = (\<lambda>x y. x + y), n_sub = (\<lambda>x y. x - y), n_mul = (\<lambda>x y. x * y),
       n_div = (\<lambda>x y. x / y), n_pow = (\<lambda>x k. power_int x k),
       n_min = min, n_max = max, n_truthy = (\<lambda>x. x \<noteq> 0), n_val = (\<lambda>x. x) \<rparr>"


section \<open>Retry engine (\<open>retry/retry-manager.ts\<close>)\<close>

text \<open>
  Delays and factors are numbers of the arithmetic \<open>ar\<close>.  The number of attempts and the
  counters of the statistics are integers.
\<close>

record 'n retry_config =
  rc_enabled :: bool
  rc_maxAttempts :: int
  rc_backoffFactor :: 'n
  rc_baseDelay :: 'n
  rc_maxDelay :: 'n
  rc_retryCondition :: "(api_error \<Rightarrow> bool) option"
  rc_retryStatusCodes :: "int list"
  rc_jitter :: bool

record 'n retry_options =
  ro_enabled :: "bool option"
  ro_maxAttempts :: "int option"
  ro_retryDelay :: "'n option"
  ro_retryCondition :: "(api_error \<Rightarrow> bool) option"

text \<open>The defaults that the constructor of \<open>RetryManager\<close> spreads the user's config over.
  \<open>rc_retryCondition = None\<close> stands for the bound method \<open>defaultRetryCondition\<close>.\<close>

definition RetryManager_defaults :: "'n arith \<Rightarrow> 'n retry_config" where
  "RetryManager_defaults ar =
     \<lparr> rc_enabled = True, rc_maxAttempts = 3, rc_backoffFactor = n_int ar 2,
       rc_baseDelay = n_int ar 1000, rc_maxDelay = n_int ar 30000, rc_retryCondition = None,
       rc_retryStatusCodes = [408, 429, 500, 502, 503, 504], rc_jitter = True \<rparr>"

definition no_options :: "'n retry_options" where
  "no_options = \<lparr> ro_enabled = None, ro_maxAttempts = None, ro_retryDelay = None,
                  ro_retryCondition = None \<rparr>"

definition custom_retry_codes :: "string list" where
  "custom_retry_codes =
     [''NETWORK_ERROR'', ''TIMEOUT_ERROR'', ''SERVICE_UNAVAILABLE'', ''SERVER_ERROR'']"

definition defaultRetryCondition :: "'n retry_config \<Rightarrow> api_error \<Rightarrow> bool" where
  "defaultRetryCondition cfg error =
     (if err_code error = Some ''ENOTFOUND'' \<or> err_code error = Some ''ECONNRESET'' \<or>
         err_code error = Some ''ECONNREFUSED'' \<or> err_code error = Some ''ETIMEDOUT''
      then True
      else
        let statusCode = js_or_num (err_response_status error) (err_status error) in
        if truthy_num statusCode then the statusCode \<in> set (rc_retryStatusCodes cfg)
        else if truthy_str (err_code error) then the (err_code error) \<in> set custom_retry_codes
        else False)"

text \<open>\<open>addJitter\<close>: \<open>r\<close> is the value drawn from \<open>Math.random()\<close>.  The product
  \<open>(Math.random() - 0.5) * 2 * jitterRange\<close> associates to the left.\<close>

definition addJitter :: "'n arith \<Rightarrow> 'n \<Rightarrow> 'n \<Rightarrow> 'n" where
  "addJitter ar r delay =
     (let jitterRange = n_mul ar delay (n_tenth ar);
          jitter = n_mul ar (n_mul ar (n_sub ar r (n_half ar)) (n_int ar 2)) jitterRange
      in n_max ar (n_int ar 0) (n_add ar delay jitter))"

definition truthy_number :: "'n arith \<Rightarrow> 'n option \<Rightarrow> bool" where
  "truthy_number ar x = (case x of None \<Rightarrow> False | Some d \<Rightarrow> n_truthy ar d)"

text \<open>\<open>calculateDelay(attempt, options)\<close> at an integral \<open>attempt\<close>; the exponent
  \<open>attempt - 1\<close> is negative when \<open>attempt\<close> is less than 1.\<close>

definition calculateDelay ::
  "'n arith \<Rightarrow> 'n retry_config \<Rightarrow> 'n \<Rightarrow> int \<Rightarrow> 'n retry_options \<Rightarrow> 'n" where
  "calculateDelay ar cfg r attempt options =
     (let baseDelay = rc_baseDelay cfg;
          backoffFactor = (if truthy_number ar (ro_retryDelay options) then n_int ar 1
                           else rc_backoffFactor cfg);
          maxDelay = rc_maxDelay cfg
      in if truthy_number ar (ro_retryDelay options)
         then n_min ar (the (ro_retryDelay options)) maxDelay
         else
           let delay = n_mul ar baseDelay (n_pow ar backoffFactor (attempt - 1));
               delay' = (if rc_jitter cfg then addJitter ar r delay else delay)
           in n_min ar delay' maxDelay)"


text \<open>
  \<open>executeWithRetry\<close>.  The operation is effectful, so it is modelled as the sequence of
  the outcomes of its invocations: \<open>operation i\<close> is what its \<open>i\<close>-th invocation (from 0)
  settles with, \<open>Inl\<close> for a rejection.  The state counts the invocations, records the
  delays slept and the calls of the \<open>onRetry\<close> hook, and holds the statistics.  \<open>rnd k\<close>
  is the \<open>Math.random()\<close> draw used before attempt \<open>k\<close>.
\<close>

datatype retry_failure =
    RetryExhaustedError (attempts: nat) (lastError: api_error) (exhaustedRequestId: "string option")
  | Thrown api_error
  | TypeError

record 'n retry_stats =
  totalAttempts :: nat
  successfulRetries :: nat
  failedRetries :: nat
  averageRetryDelay :: 'n
  maxRetryDelay :: 'n

record 'n retry_state =
  rs_stats :: "'n retry_stats"
  rs_invocations :: nat
  rs_slept :: "'n list"
  rs_onRetry_calls :: "(nat \<times> api_error option) list"

definition updateStats :: "'n arith \<Rightarrow> 'n retry_stats \<Rightarrow> 'n \<Rightarrow> 'n retry_stats" where
  "updateStats ar s delay =
     (let totalDelays = n_add ar (n_mul ar (averageRetryDelay s)
                                    (n_int ar (int (successfulRetries s)))) delay
      in s \<lparr> averageRetryDelay :=
               n_div ar totalDelays (n_add ar (n_int ar (int (successfulRetries s))) (n_int ar 1)),
             maxRetryDelay := n_max ar (maxRetryDelay s) delay \<rparr>)"

text \<open>\<open>new RetryExhaustedError(attemptCount, lastError!, requestId)\<close>: the constructor
  reads \<open>lastError.message\<close>, which raises a \<open>TypeError\<close> when no attempt ran.\<close>

definition throw_exhausted ::
  "nat \<Rightarrow> api_error option \<Rightarrow> string option \<Rightarrow> retry_failure" where
  "throw_exhausted attemptCount lastErr rid =
     (case lastErr of None \<Rightarrow> TypeError | Some e \<Rightarrow> RetryExhaustedError attemptCount e rid)"

function retry_loop ::
  "'n arith \<Rightarrow> 'n retry_config \<Rightarrow> 'n retry_options \<Rightarrow> (nat \<Rightarrow> api_error + 'a) \<Rightarrow>
   (nat \<Rightarrow> 'n) \<Rightarrow> string option \<Rightarrow> int \<Rightarrow> (api_error \<Rightarrow> bool) \<Rightarrow> nat \<Rightarrow>
   api_error option \<Rightarrow> 'n retry_state \<Rightarrow> (retry_failure + 'a) \<times> 'n retry_state" where
  "retry_loop ar cfg options operation rnd rid maxAttempts retryCondition attempt lastErr st =
     (if int attempt \<le> maxAttempts then
        let st1 = st \<lparr> rs_stats := (rs_stats st) \<lparr> totalAttempts := totalAttempts (rs_stats st) + 1 \<rparr> \<rparr>;
            st2 = (if attempt > 1 then
                     let delay = calculateDelay ar cfg (rnd attempt) (int attempt - 1) options
                     in st1 \<lparr> rs_onRetry_calls := rs_onRetry_calls st1 @ [(attempt - 1, lastErr)],
                              rs_slept := rs_slept st1 @ [delay],
                              rs_stats := updateStats ar (rs_stats st1) delay \<rparr>
                   else st1);
            st3 = st2 \<lparr> rs_invocations := rs_invocations st2 + 1 \<rparr>
        in case operation (rs_invocations st2) of
             Inr result \<Rightarrow>
               (Inr result,
                if attempt > 1
                then st3 \<lparr> rs_stats := (rs_stats st3)
                              \<lparr> successfulRetries := successfulRetries (rs_stats st3) + 1 \<rparr> \<rparr>
                else st3)
           | Inl error \<Rightarrow>
               if int attempt = maxAttempts \<or> \<not> retryCondition error then
                 (Inl (throw_exhausted attempt (Some error) rid),
                  if attempt > 1
                  then st3 \<lparr> rs_stats := (rs_stats st3)
                                \<lparr> failedRetries := failedRetries (rs_stats st3) + 1 \<rparr> \<rparr>
                  else st3)
               else retry_loop ar cfg options operation rnd rid maxAttempts retryCondition
                      (attempt + 1) (Some error) st3
      else (Inl (throw_exhausted (attempt - 1) lastErr rid), st))"
  by pat_completeness auto
termination
  by (relation "measure (\<lambda>(ar, cfg, options, operation, rnd, rid, maxAttempts, retryCondition,
                            attempt, lastErr, st). nat (maxAttempts + 1 - int attempt))") auto

declare retry_loop.simps [simp del]

definition resolve_maxAttempts :: "'n retry_config \<Rightarrow> 'n retry_options \<Rightarrow> int" where
  "resolve_maxAttempts cfg options =
     (case ro_maxAttempts options of Some m \<Rightarrow> m | None \<Rightarrow> rc_maxAttempts cfg)"

definition resolve_retryCondition ::
  "'n retry_config \<Rightarrow> 'n retry_options \<Rightarrow> api_error \<Rightarrow> bool" where
  "resolve_retryCondition cfg options =
     (case ro_retryCondition options of
        Some c \<Rightarrow> c
      | None \<Rightarrow> (case rc_retryCondition cfg of Some c \<Rightarrow> c | None \<Rightarrow> defaultRetryCondition cfg))"

definition executeWithRetry ::
  "'n arith \<Rightarrow> 'n retry_config \<Rightarrow> 'n retry_options \<Rightarrow> (nat \<Rightarrow> api_error + 'a) \<Rightarrow>
   (nat \<Rightarrow> 'n) \<Rightarrow> string option \<Rightarrow> 'n retry_state \<Rightarrow> (retry_failure + 'a) \<times> 'n retry_state" where
  "executeWithRetry ar cfg options operation rnd rid st =
     (if \<not> rc_enabled cfg \<and> ro_enabled options \<noteq> Some True then
        (case operation (rs_invocations st) of
           Inl error \<Rightarrow> (Inl (Thrown error), st \<lparr> rs_invocations := rs_invocations st + 1 \<rparr>)
         | Inr result \<Rightarrow> (Inr result, st \<lparr> rs_invocations := rs_invocations st + 1 \<rparr>))
      else
        retry_loop ar cfg options operation rnd rid (resolve_maxAttempts cfg options)
          (resolve_retryCondition cfg options) 1 None st)"

definition initial_retry_state :: "'n arith \<Rightarrow> 'n retry_state" where
  "initial_retry_state ar =
     \<lparr> rs_stats = \<lparr> totalAttempts = 0, successfulRetries = 0, failedRetries = 0,
                 averageRetryDelay = n_int ar 0, maxRetryDelay = n_int ar 0 \<rparr>,
       rs_invocations = 0, rs_slept = [], rs_onRetry_calls = [] \<rparr>"

subsection \<open>The default retry predicate\<close>

lemma defaultRetryCondition_network:
  "err_code e \<in> {Some ''ENOTFOUND'', Some ''ECONNRESET'', Some ''ECONNREFUSED'', Some ''ETIMEDOUT''}
   \<Longrightarrow> defaultRetryCondition cfg e"
  by (auto simp add: defaultRetryCondition_def)

lemma defaultRetryCondition_status:
  assumes "err_code e \<notin> {Some ''ENOTFOUND'', Some ''ECONNRESET'', Some ''ECONNREFUSED'', Some ''ETIMEDOUT''}"
    and "js_or_num (err_response_status e) (err_status e) = Some s" and "s \<noteq> 0"
  shows "defaultRetryCondition cfg e \<longleftrightarrow> s \<in> set (rc_retryStatusCodes cfg)"
  using assms by (simp add: defaultRetryCondition_def truthy_num_def)

text \<open>
  Claim C5 as stated says that every 5xx status is retried by default.  The default list
  of the constructor is \<open>[408, 429, 500, 502, 503, 504]\<close>, and the predicate tests
  membership in that list: an error whose response status is 501 is not retried.
\<close>

theorem C5_default_predicate_501_not_retried:
  "\<not> defaultRetryCondition (RetryManager_defaults exact_arith)
        \<lparr> err_code = None, err_response_status = Some 501, err_status = None,
          err_message = ''Not Implemented'', err_data = None, err_response_message = None \<rparr>"
  by (simp add: defaultRetryCondition_def RetryManager_defaults_def js_or_num_def
      truthy_num_def truthy_str_def)

text \<open>
  Claim C5, amended: with the default \<open>retryStatusCodes\<close>, the default retry condition
  returns true for the connection-level codes ENOTFOUND, ECONNRESET, ECONNREFUSED and
  ETIMEDOUT; for an error without such a code that carries a (non-zero) HTTP status, read
  as the predicate reads it, \<open>error.response?.status || error.status\<close> (the status of the
  response of a raw transport error, else the \<open>status\<close> field of a transformed
  \<open>ApiError\<close>), it returns true if and only if the status is one of 408, 429, 500, 502,
  503, 504; in particular it returns false for every 4xx status other than 408 and 429.
\<close>

theorem C5_default_retry_predicate:
  assumes "rc_retryStatusCodes cfg = rc_retryStatusCodes (RetryManager_defaults ar)"
  shows "(err_code e \<in> {Some ''ENOTFOUND'', Some ''ECONNRESET'', Some ''ECONNREFUSED'',
                     Some ''ETIMEDOUT''} \<longrightarrow> defaultRetryCondition cfg e) \<and>
         (err_code e \<notin> {Some ''ENOTFOUND'', Some ''ECONNRESET'', Some ''ECONNREFUSED'',
                     Some ''ETIMEDOUT''} \<and>
          js_or_num (err_response_status e) (err_status e) = Some s \<and> s \<noteq> 0 \<longrightarrow>
            (defaultRetryCondition cfg e \<longleftrightarrow> s \<in> {408, 429, 500, 502, 503, 504})) \<and>
         (err_code e \<notin> {Some ''ENOTFOUND'', Some ''ECONNRESET'', Some ''ECONNREFUSED'',
                     Some ''ETIMEDOUT''} \<and>
          js_or_num (err_response_status e) (err_status e) = Some s \<and>
            400 \<le> s \<and> s < 500 \<and> s \<noteq> 408 \<and> s \<noteq> 429 \<longrightarrow> \<not> defaultRetryCondition cfg e)"
proof (intro conjI impI)
  assume "err_code e \<in> {Some ''ENOTFOUND'', Some ''ECONNRESET'', Some ''ECONNREFUSED'',
                     Some ''ETIMEDOUT''}"
  then show "defaultRetryCondition cfg e" by (rule defaultRetryCondition_network)
next
  assume a: "err_code e \<notin> {Some ''ENOTFOUND'', Some ''ECONNRESET'', Some ''ECONNREFUSED'',
                     Some ''ETIMEDOUT''} \<and>
             js_or_num (err_response_status e) (err_status e) = Some s \<and> s \<noteq> 0"
  then have "defaultRetryCondition cfg e \<longleftrightarrow> s \<in> set (rc_retryStatusCodes cfg)"
    by (intro defaultRetryCondition_status) simp_all
  then show "defaultRetryCondition cfg e \<longleftrightarrow> s \<in> {408, 429, 500, 502, 503, 504}"
    using assms by (simp add: RetryManager_defaults_def)
next
  assume a: "err_code e \<notin> {Some ''ENOTFOUND'', Some ''ECONNRESET'', Some ''ECONNREFUSED'',
                     Some ''ETIMEDOUT''} \<and>
             js_or_num (err_response_status e) (err_status e) = Some s \<and>
            400 \<le> s \<and> s < 500 \<and> s \<noteq> 408 \<and> s \<noteq> 429"
  then have "defaultRetryCondition cfg e \<longleftrightarrow> s \<in> set (rc_retryStatusCodes cfg)"
    by (intro defaultRetryCondition_status) simp_all
  then show "\<not> defaultRetryCondition cfg e"
    using assms a by (simp add: RetryManager_defaults_def)
qed

text \<open>The witness: a connection reset; a raw transport error with a 503 response; a
  transformed \<open>ApiError\<close>, which has no \<open>response\<close> and keeps the status in its own
  \<open>status\<close> field, with 503 and with 404.\<close>

theorem C5_default_retry_predicate_witness:
  "defaultRetryCondition (RetryManager_defaults exact_arith)
      \<lparr> err_code = Some ''ECONNRESET'', err_response_status = None, err_status = None,
        err_message = [], err_data = None, err_response_message = None \<rparr> \<and>
   defaultRetryCondition (RetryManager_defaults exact_arith)
      \<lparr> err_code = None, err_response_status = Some 503, err_status = None,
        err_message = [], err_data = None, err_response_message = None \<rparr> \<and>
   defaultRetryCondition (RetryManager_defaults exact_arith)
      \<lparr> err_code = Some ''SERVICE_UNAVAILABLE'', err_response_status = None,
        err_status = Some 503, err_message = [], err_data = None,
        err_response_message = None \<rparr> \<and>
   \<not> defaultRetryCondition (RetryManager_defaults exact_arith)
      \<lparr> err_code = Some ''NOT_FOUND'', err_response_status = None, err_status = Some 404,
        err_message = [], err_data = None, err_response_message = None \<rparr>"
  using
    C5_default_retry_predicate [of "RetryManager_defaults exact_arith" exact_arith
      "\<lparr> err_code = Some ''ECONNRESET'', err_response_status = None, err_status = None,
         err_message = [], err_data = None, err_response_message = None \<rparr>" 0]
    C5_default_retry_predicate [of "RetryManager_defaults exact_arith" exact_arith
      "\<lparr> err_code = None, err_response_status = Some 503, err_status = None,
         err_message = [], err_data = None, err_response_message = None \<rparr>" 503]
    C5_default_retry_predicate [of "RetryManager_defaults exact_arith" exact_arith
      "\<lparr> err_code = Some ''SERVICE_UNAVAILABLE'', err_response_status = None,
         err_status = Some 503, err_message = [], err_data = None,
         err_response_message = None \<rparr>" 503]
    C5_default_retry_predicate [of "RetryManager_defaults exact_arith" exact_arith
      "\<lparr> err_code = Some ''NOT_FOUND'', err_response_status = None, err_status = Some 404,
         err_message = [], err_data = None, err_response_message = None \<rparr>" 404]
  by (simp add: js_or_num_def truthy_num_def)

subsection \<open>The backoff delay\<close>










subsection \<open>Attempt counts of \<open>executeWithRetry\<close>\<close>

definition err_503 :: api_error where
  "err_503 = \<lparr> err_code = None, err_response_status = Some 503, err_status = None,
               err_message = ''Service Unavailable'', err_data = Some ''{}'',
               err_response_message = None \<rparr>"

definition err_404 :: api_error where
  "err_404 = \<lparr> err_code = None, err_response_status = Some 404, err_status = None,
               err_message = ''Not Found'', err_data = Some ''{}'',
               err_response_message = None \<rparr>"

lemma retry_loop_nonretryable:
  assumes "int a \<le> maxA" and "operation (rs_invocations st) = Inl e" and "\<not> rcond e"
  shows "fst (retry_loop ar cfg options operation rnd rid maxA rcond a le st) =
           Inl (RetryExhaustedError a e rid) \<and>
         rs_invocations (snd (retry_loop ar cfg options operation rnd rid maxA rcond a le st)) =
           rs_invocations st + 1"
  using assms
  by (subst (1 2) retry_loop.simps) (simp add: Let_def throw_exhausted_def)

lemma retry_loop_all_retryable:
  assumes "1 \<le> a" and "int a \<le> maxA" and "k = nat maxA - a"
    and "\<forall>j\<le>k. \<exists>e. operation (rs_invocations st + j) = Inl e \<and> rcond e"
  shows "fst (retry_loop ar cfg options operation rnd rid maxA rcond a le st) =
           Inl (RetryExhaustedError (nat maxA) (projl (operation (rs_invocations st + k))) rid) \<and>
         rs_invocations (snd (retry_loop ar cfg options operation rnd rid maxA rcond a le st)) =
           rs_invocations st + k + 1"
  using assms
proof (induction k arbitrary: a le st)
  case 0
  then have am: "int a = maxA" by linarith
  from 0 obtain e where e: "operation (rs_invocations st) = Inl e" by auto
  show ?case using 0 am e
    by (subst (1 2) retry_loop.simps) (auto simp add: Let_def throw_exhausted_def)
next
  case (Suc k)
  then have lt: "int a < maxA" "int a \<noteq> maxA" by linarith+
  from Suc.prems obtain e where e: "operation (rs_invocations st) = Inl e" "rcond e"
    by (metis add.right_neutral le0)
  define st3 where "st3 =
    (let st1 = st \<lparr> rs_stats := (rs_stats st) \<lparr> totalAttempts := totalAttempts (rs_stats st) + 1 \<rparr> \<rparr>;
         st2 = (if a > 1 then
                  let delay = calculateDelay ar cfg (rnd a) (int a - 1) options
                  in st1 \<lparr> rs_onRetry_calls := rs_onRetry_calls st1 @ [(a - 1, le)],
                           rs_slept := rs_slept st1 @ [delay],
                           rs_stats := updateStats ar (rs_stats st1) delay \<rparr>
                else st1)
     in st2 \<lparr> rs_invocations := rs_invocations st2 + 1 \<rparr>)"
  have inv3: "rs_invocations st3 = rs_invocations st + 1"
    by (simp add: st3_def Let_def)
  have step: "retry_loop ar cfg options operation rnd rid maxA rcond a le st =
              retry_loop ar cfg options operation rnd rid maxA rcond (a + 1) (Some e) st3"
    using e lt by (subst retry_loop.simps) (simp add: Let_def st3_def)
  have "\<forall>j\<le>k. \<exists>e. operation (rs_invocations st3 + j) = Inl e \<and> rcond e"
  proof (intro allI impI)
    fix j assume "j \<le> k"
    then have "Suc j \<le> Suc k" by simp
    with Suc.prems(4) have "\<exists>e. operation (rs_invocations st + Suc j) = Inl e \<and> rcond e"
      by blast
    then show "\<exists>e. operation (rs_invocations st3 + j) = Inl e \<and> rcond e"
      by (simp add: inv3)
  qed
  moreover have "1 \<le> a + 1" "int (a + 1) \<le> maxA" "k = nat maxA - (a + 1)"
    using lt Suc.prems by linarith+
  ultimately show ?case
    using Suc.IH [of "a + 1" st3 "Some e"] inv3 unfolding step by simp
qed

text \<open>With \<open>maxAttempts = 0\<close> (a per-call option is not validated) the loop body never
  runs: the operation is not invoked, and the constructor of the error reads the message
  of an undefined \<open>lastError\<close>.\<close>

lemma executeWithRetry_zero_attempts:
  "executeWithRetry ar (RetryManager_defaults ar) (no_options \<lparr> ro_maxAttempts := Some 0 \<rparr>)
     operation rnd rid st = (Inl TypeError, st)"
  by (simp add: executeWithRetry_def RetryManager_defaults_def resolve_maxAttempts_def
      no_options_def retry_loop.simps throw_exhausted_def)

text \<open>
  Claim C4 as stated quantifies over every retry policy.  A policy with
  \<open>enabled = false\<close> (and no per-call \<open>enabled\<close>) takes the first branch of
  \<open>executeWithRetry\<close>: the operation runs once, although its error is retryable and
  \<open>maxAttempts\<close> is 3, and its own error is raised, not a \<open>RetryExhaustedError\<close>.
\<close>

theorem C4_disabled_policy_runs_once_unwrapped:
  "fst (executeWithRetry exact_arith ((RetryManager_defaults exact_arith) \<lparr> rc_enabled := False \<rparr>) no_options
          (\<lambda>i. Inl err_503 :: api_error + unit) (\<lambda>k. 0) None (initial_retry_state exact_arith)) =
     Inl (Thrown err_503) \<and>
   rs_invocations (snd (executeWithRetry exact_arith ((RetryManager_defaults exact_arith) \<lparr> rc_enabled := False \<rparr>) no_options
          (\<lambda>i. Inl err_503 :: api_error + unit) (\<lambda>k. 0) None (initial_retry_state exact_arith))) = 1 \<and>
   resolve_retryCondition ((RetryManager_defaults exact_arith) \<lparr> rc_enabled := False \<rparr>) no_options err_503 \<and>
   resolve_maxAttempts ((RetryManager_defaults exact_arith) \<lparr> rc_enabled := False \<rparr>) no_options = 3"
  by (simp add: executeWithRetry_def RetryManager_defaults_def no_options_def
      initial_retry_state_def resolve_retryCondition_def resolve_maxAttempts_def
      defaultRetryCondition_def err_503_def js_or_num_def truthy_num_def)

text \<open>
  Claim C4, amended: when retrying is enabled (in the manager's config or in the per-call
  options) and \<open>maxAttempts \<ge> 1\<close>, \<open>executeWithRetry\<close> invokes the operation exactly once
  when the first error is not retryable, and exactly \<open>maxAttempts\<close> times when every error
  is retryable; in both cases it raises a \<open>RetryExhaustedError\<close> that carries the attempt
  count and the last underlying error object (hence its status and data), also when the
  count is 1.
\<close>

theorem C4_retry_attempt_counts:
  assumes "rc_enabled cfg \<or> ro_enabled options = Some True"
    and "1 \<le> resolve_maxAttempts cfg options"
    and "m = nat (resolve_maxAttempts cfg options)"
    and "run = executeWithRetry ar cfg options operation rnd rid st"
  shows "(operation (rs_invocations st) = Inl e \<and> \<not> resolve_retryCondition cfg options e \<longrightarrow>
            fst run = Inl (RetryExhaustedError 1 e rid) \<and>
            rs_invocations (snd run) = rs_invocations st + 1) \<and>
         ((\<forall>j<m. \<exists>e'. operation (rs_invocations st + j) = Inl e' \<and>
                       resolve_retryCondition cfg options e') \<and>
          operation (rs_invocations st + (m - 1)) = Inl e \<longrightarrow>
            fst run = Inl (RetryExhaustedError m e rid) \<and>
            lastError (projl (fst run)) = e \<and>
            rs_invocations (snd run) = rs_invocations st + m)"
proof -
  have run: "run = retry_loop ar cfg options operation rnd rid (resolve_maxAttempts cfg options)
                     (resolve_retryCondition cfg options) 1 None st"
    using assms(1,4) by (auto simp add: executeWithRetry_def)
  show ?thesis
  proof (intro conjI impI)
    assume a: "operation (rs_invocations st) = Inl e \<and> \<not> resolve_retryCondition cfg options e"
    have "int 1 \<le> resolve_maxAttempts cfg options" using assms(2) by simp
    with a retry_loop_nonretryable [where a = 1 and maxA = "resolve_maxAttempts cfg options"
        and operation = operation and st = st and e = e
        and rcond = "resolve_retryCondition cfg options" and cfg = cfg and options = options
        and rnd = rnd and rid = rid and le = None and ar = ar]
    show "fst run = Inl (RetryExhaustedError 1 e rid)"
      and "rs_invocations (snd run) = rs_invocations st + 1"
      unfolding run by simp_all
  next
    assume a: "(\<forall>j<m. \<exists>e'. operation (rs_invocations st + j) = Inl e' \<and>
                       resolve_retryCondition cfg options e') \<and>
          operation (rs_invocations st + (m - 1)) = Inl e"
    have m: "1 \<le> m" "int 1 \<le> resolve_maxAttempts cfg options"
      "m - 1 = nat (resolve_maxAttempts cfg options) - 1"
      using assms(2,3) by simp_all
    have all: "\<forall>j\<le>m - 1. \<exists>e'. operation (rs_invocations st + j) = Inl e' \<and>
                       resolve_retryCondition cfg options e'"
      using a m(1) by (metis One_nat_def Suc_pred le_imp_less_Suc less_eq_Suc_le)
    have "operation (rs_invocations st + (m - 1)) = Inl e" using a by simp
    with all m assms(3)
      retry_loop_all_retryable [where a = 1 and maxA = "resolve_maxAttempts cfg options"
        and k = "m - 1" and operation = operation and st = st
        and rcond = "resolve_retryCondition cfg options" and cfg = cfg and options = options
        and rnd = rnd and rid = rid and le = None and ar = ar]
    show "fst run = Inl (RetryExhaustedError m e rid)"
      and "rs_invocations (snd run) = rs_invocations st + m"
      unfolding run by simp_all
    then show "lastError (projl (fst run)) = e" by simp
  qed
qed

theorem C4_retry_attempt_counts_witness:
  "fst (executeWithRetry exact_arith (RetryManager_defaults exact_arith) no_options
          (\<lambda>i. Inl err_404 :: api_error + unit) (\<lambda>k. 0) (Some ''req_1'')
          (initial_retry_state exact_arith)) =
     Inl (RetryExhaustedError 1 err_404 (Some ''req_1'')) \<and>
   rs_invocations (snd (executeWithRetry exact_arith (RetryManager_defaults exact_arith) no_options
          (\<lambda>i. Inl err_404 :: api_error + unit) (\<lambda>k. 0) (Some ''req_1'')
          (initial_retry_state exact_arith))) = 1 \<and>
   fst (executeWithRetry exact_arith (RetryManager_defaults exact_arith) no_options
          (\<lambda>i. Inl err_503 :: api_error + unit) (\<lambda>k. 0) (Some ''req_2'')
          (initial_retry_state exact_arith)) =
     Inl (RetryExhaustedError 3 err_503 (Some ''req_2'')) \<and>
   rs_invocations (snd (executeWithRetry exact_arith (RetryManager_defaults exact_arith) no_options
          (\<lambda>i. Inl err_503 :: api_error + unit) (\<lambda>k. 0) (Some ''req_2'')
          (initial_retry_state exact_arith))) = 3"
  using
    C4_retry_attempt_counts [where cfg = "RetryManager_defaults exact_arith"
      and options = no_options and m = 3 and ar = exact_arith
      and run = "executeWithRetry exact_arith (RetryManager_defaults exact_arith) no_options
          (\<lambda>i. Inl err_404 :: api_error + unit) (\<lambda>k. 0) (Some ''req_1'')
          (initial_retry_state exact_arith)"
      and operation = "\<lambda>i. Inl err_404" and rnd = "\<lambda>k. 0" and rid = "Some ''req_1''"
      and st = "initial_retry_state exact_arith" and e = err_404]
    C4_retry_attempt_counts [where cfg = "RetryManager_defaults exact_arith"
      and options = no_options and m = 3 and ar = exact_arith
      and run = "executeWithRetry exact_arith (RetryManager_defaults exact_arith) no_options
          (\<lambda>i. Inl err_503 :: api_error + unit) (\<lambda>k. 0) (Some ''req_2'')
          (initial_retry_state exact_arith)"
      and operation = "\<lambda>i. Inl err_503" and rnd = "\<lambda>k. 0" and rid = "Some ''req_2''"
      and st = "initial_retry_state exact_arith" and e = err_503]
  by (simp add: RetryManager_defaults_def no_options_def initial_retry_state_def
      resolve_retryCondition_def resolve_maxAttempts_def defaultRetryCondition_def
      err_503_def err_404_def js_or_num_def truthy_num_def truthy_str_def)


section \<open>Request fingerprints\<close>

text \<open>
  Parameter maps, bodies and cached payloads are JSON values.  A JavaScript object is an
  association list with distinct keys in insertion order, which is the order
  \<open>Object.keys\<close> and \<open>JSON.stringify\<close> enumerate (for keys that are not array indices).
  Numbers are integers here.  \<open>join\<close> is \<open>Array.prototype.join\<close>, \<open>js_String\<close> the
  conversion a template literal applies, \<open>toUpperCase\<close> acts on ASCII letters, and
  \<open>sort\<close> on strings is the code-unit order of \<open>Array.prototype.sort\<close>.
\<close>

datatype json = JNull | JBool bool | JNum int | JStr string | JArr "json list"
  | JObj "(string \<times> json) list"

fun join :: "string \<Rightarrow> string list \<Rightarrow> string" where
  "join sep [] = []"
| "join sep [x] = x"
| "join sep (x # y # ys) = x @ sep @ join sep (y # ys)"

definition digit_char :: "nat \<Rightarrow> char" where
  "digit_char d = char_of (48 + d)"

function string_of_nat :: "nat \<Rightarrow> string" where
  "string_of_nat n = (if n < 10 then [digit_char n] else string_of_nat (n div 10) @ [digit_char (n mod 10)])"
  by pat_completeness auto
termination by (relation "measure id") auto

declare string_of_nat.simps [simp del]

definition string_of_int :: "int \<Rightarrow> string" where
  "string_of_int i = (if i < 0 then CHR ''-'' # string_of_nat (nat (- i)) else string_of_nat (nat i))"

definition toUpperCase :: "string \<Rightarrow> string" where
  "toUpperCase s = map (\<lambda>c. if CHR ''a'' \<le> c \<and> c \<le> CHR ''z'' then char_of (of_char c - (32::nat)) else c) s"

text \<open>\<open>JSON.stringify\<close> of a string: the quotation mark and the backslash are escaped.\<close>

fun escape_char :: "char \<Rightarrow> string" where
  "escape_char c =
     (if c = CHR 0x22 then [CHR 0x5C, CHR 0x22]
      else if c = CHR 0x5C then [CHR 0x5C, CHR 0x5C]
      else [c])"

definition quote :: "string \<Rightarrow> string" where
  "quote s = [CHR 0x22] @ concat (map escape_char s) @ [CHR 0x22]"

fun JSON_stringify :: "json \<Rightarrow> string" where
  "JSON_stringify JNull = ''null''"
| "JSON_stringify (JBool b) = (if b then ''true'' else ''false'')"
| "JSON_stringify (JNum n) = string_of_int n"
| "JSON_stringify (JStr s) = quote s"
| "JSON_stringify (JArr xs) = ''['' @ join '','' (map JSON_stringify xs) @ '']''"
| "JSON_stringify (JObj kvs) = ''{'' @ join '','' (map (\<lambda>kv. quote (fst kv) @ '':'' @ JSON_stringify (snd kv)) kvs) @ ''}''"


fun js_String :: "json \<Rightarrow> string" where
  "js_String JNull = ''null''"
| "js_String (JBool b) = (if b then ''true'' else ''false'')"
| "js_String (JNum n) = string_of_int n"
| "js_String (JStr s) = s"
| "js_String (JArr xs) = join '','' (map (\<lambda>x. case x of JNull \<Rightarrow> [] | _ \<Rightarrow> js_String x) xs)"
| "js_String (JObj kvs) = ''[object Object]''"

fun truthy_json :: "json option \<Rightarrow> bool" where
  "truthy_json None = False"
| "truthy_json (Some JNull) = False"
| "truthy_json (Some (JBool b)) = b"
| "truthy_json (Some (JNum n)) = (n \<noteq> 0)"
| "truthy_json (Some (JStr s)) = (s \<noteq> [])"
| "truthy_json (Some (JArr xs)) = True"
| "truthy_json (Some (JObj kvs)) = True"

definition param_text :: "(string \<times> json) list \<Rightarrow> string \<Rightarrow> string" where
  "param_text params key = (case map_of params key of None \<Rightarrow> ''undefined'' | Some v \<Rightarrow> js_String v)"

definition buildCacheKey ::
  "string \<Rightarrow> string \<Rightarrow> (string \<times> json) list option \<Rightarrow> json option \<Rightarrow> string" where
  "buildCacheKey url meth params body =
     (let parts = [toUpperCase meth, url];
          parts1 = (case params of
                      None \<Rightarrow> parts
                    | Some ps \<Rightarrow>
                        if length (map fst ps) > 0 then
                          let sortedParams =
                                join ''&'' (map (\<lambda>key. key @ ''='' @ param_text ps key) (sort (map fst ps)))
                          in parts @ [''params:'' @ sortedParams]
                        else parts);
          parts2 = (if truthy_json body then
                      let bodyStr = (case body of Some (JStr s) \<Rightarrow> s | Some b \<Rightarrow> JSON_stringify b | None \<Rightarrow> [])
                      in parts1 @ [''body:'' @ bodyStr]
                    else parts1)
      in join ''|'' parts2)"

definition defaultKeyGenerator ::
  "string \<Rightarrow> string \<Rightarrow> json option \<Rightarrow> (string \<times> json) list option \<Rightarrow> string" where
  "defaultKeyGenerator meth url data params =
     (let baseKey = toUpperCase meth @ '':'' @ url;
          paramsString = (case params of Some ps \<Rightarrow> JSON_stringify (JObj ps) | None \<Rightarrow> []);
          dataString = (if truthy_json data then JSON_stringify (the data) else [])
      in baseKey @ '':'' @ paramsString @ '':'' @ dataString)"


subsection \<open>Order of the parameters\<close>

lemma sort_keys_eq:
  assumes "distinct (map fst ps)" and "distinct (map fst qs)" and "set ps = set qs"
  shows "sort (map fst ps) = sort (map fst qs)"
proof -
  have "set (map fst ps) = set (map fst qs)"
    using assms(3) by simp
  then show ?thesis
    using assms(1,2) by (intro sorted_distinct_set_unique) simp_all
qed

lemma param_text_eq:
  assumes "distinct (map fst ps)" and "distinct (map fst qs)" and "set ps = set qs"
  shows "param_text ps = param_text qs"
  using assms map_of_inject_set [of ps qs] by (auto simp add: param_text_def fun_eq_iff)

text \<open>
  The cache key builder sorts the parameter keys: two parameter objects that hold the
  same key-value pairs give the same cache key, whatever their insertion orders.
\<close>

lemma buildCacheKey_order_independent:
  assumes "distinct (map fst ps)" and "distinct (map fst qs)" and "set ps = set qs"
  shows "buildCacheKey url meth (Some ps) body = buildCacheKey url meth (Some qs) body"
proof -
  have "ps = [] \<longleftrightarrow> qs = []"
    using assms(3) by (metis set_empty)
  then show ?thesis
    using sort_keys_eq [OF assms] param_text_eq [OF assms]
    by (simp add: buildCacheKey_def Let_def)
qed

lemma buildCacheKey_example:
  "buildCacheKey ''/users'' ''get'' (Some [(''b'', JNum 2), (''a'', JNum 1)]) None =
     ''GET|/users|params:a=1&b=2''"
  by code_simp

text \<open>
  Claim C7 at the default deduplication key generator: it serialises the parameter
  object with \<open>JSON.stringify\<close>, in insertion order and without sorting, so
  \<open>{a:1,b:2}\<close> and \<open>{b:2,a:1}\<close> get different keys,
  \<open>GET:/users:{"a":1,"b":2}:\<close> and \<open>GET:/users:{"b":2,"a":1}:\<close>.
\<close>

theorem C7_dedup_key_depends_on_insertion_order:
  "defaultKeyGenerator ''GET'' ''/users'' None (Some [(''a'', JNum 1), (''b'', JNum 2)]) \<noteq>
   defaultKeyGenerator ''GET'' ''/users'' None (Some [(''b'', JNum 2), (''a'', JNum 1)])"
  by (simp add: defaultKeyGenerator_def quote_def)

lemma defaultKeyGenerator_example:
  "defaultKeyGenerator ''GET'' ''/users'' None (Some [(''a'', JNum 1), (''b'', JNum 2)]) =
     ''GET:/users:{'' @ [CHR 0x22] @ ''a'' @ [CHR 0x22] @ '':1,'' @ [CHR 0x22] @ ''b'' @
       [CHR 0x22] @ '':2}:''"
  by code_simp


section \<open>Cache store (\<open>cache/cache-manager.ts\<close>)\<close>

text \<open>
  The cache manager works over a pluggable adapter, any of whose operations may throw.
  An adapter is a record of operations over its own store \<open>'s\<close>; an operation returns
  \<open>Inl msg\<close> when it throws \<open>Error(msg)\<close>.  Times and durations are milliseconds
  (\<open>Date.now()\<close> is the parameter \<open>now\<close>).  The entry holds the serialised payload;
  \<open>serialize\<close> and \<open>deserialize\<close> are the configured functions (by default
  \<open>JSON.stringify\<close> and \<open>JSON.parse\<close>), the serialised form being a string.
\<close>

record cache_entry =
  ce_data :: string
  ce_expiresAt :: int
  ce_createdAt :: int
  ce_hits :: nat

record 's cache_adapter =
  ad_get :: "string \<Rightarrow> 's \<Rightarrow> (string + cache_entry option) \<times> 's"
  ad_set :: "string \<Rightarrow> cache_entry \<Rightarrow> 's \<Rightarrow> (string + unit) \<times> 's"
  ad_delete :: "string \<Rightarrow> 's \<Rightarrow> (string + bool) \<times> 's"
  ad_size :: "'s \<Rightarrow> (string + nat) \<times> 's"

record 'a cache_config =
  cc_enabled :: bool
  cc_defaultTTL :: int
  cc_maxSize :: nat
  cc_keyPrefix :: string
  cc_serialize :: "'a \<Rightarrow> string"
  cc_deserialize :: "string \<Rightarrow> 'a"

record cache_stats =
  cs_hits :: nat
  cs_misses :: nat
  cs_sets :: nat
  cs_deletes :: nat
  cs_size :: nat
  cs_hitRate :: real

record 's cache_state =
  cm_store :: 's
  cm_stats :: cache_stats

datatype cache_error = CacheError string

definition buildKey :: "'a cache_config \<Rightarrow> string \<Rightarrow> string" where
  "buildKey cfg key = cc_keyPrefix cfg @ key"

definition isExpired :: "int \<Rightarrow> cache_entry \<Rightarrow> bool" where
  "isExpired now entry = (now > ce_expiresAt entry)"

definition updateHitRate :: "cache_stats \<Rightarrow> cache_stats" where
  "updateHitRate s =
     (let total = cs_hits s + cs_misses s
      in s \<lparr> cs_hitRate := (if total > 0 then real (cs_hits s) / real total else 0) \<rparr>)"

definition count_miss :: "'s cache_state \<Rightarrow> 's cache_state" where
  "count_miss st =
     st \<lparr> cm_stats := updateHitRate ((cm_stats st) \<lparr> cs_misses := cs_misses (cm_stats st) + 1 \<rparr>) \<rparr>"

definition count_hit :: "'s cache_state \<Rightarrow> 's cache_state" where
  "count_hit st =
     st \<lparr> cm_stats := updateHitRate ((cm_stats st) \<lparr> cs_hits := cs_hits (cm_stats st) + 1 \<rparr>) \<rparr>"

definition CacheManager_delete ::
  "'a cache_config \<Rightarrow> 's cache_adapter \<Rightarrow> string \<Rightarrow> 's cache_state \<Rightarrow>
   (cache_error + bool) \<times> 's cache_state" where
  "CacheManager_delete cfg ad key st =
     (if \<not> cc_enabled cfg then (Inr False, st)
      else
        let cacheKey = buildKey cfg key in
        case ad_delete ad cacheKey (cm_store st) of
          (Inl msg, s1) \<Rightarrow>
            (Inl (CacheError (''Failed to delete cache entry: '' @ msg)), st \<lparr> cm_store := s1 \<rparr>)
        | (Inr deleted, s1) \<Rightarrow>
            if deleted then
              (case ad_size ad s1 of
                 (Inl msg, s2) \<Rightarrow>
                   (Inl (CacheError (''Failed to delete cache entry: '' @ msg)),
                    st \<lparr> cm_store := s2,
                         cm_stats := (cm_stats st) \<lparr> cs_deletes := cs_deletes (cm_stats st) + 1 \<rparr> \<rparr>)
               | (Inr n, s2) \<Rightarrow>
                   (Inr True,
                    st \<lparr> cm_store := s2,
                         cm_stats := (cm_stats st) \<lparr> cs_deletes := cs_deletes (cm_stats st) + 1,
                                                   cs_size := n \<rparr> \<rparr>))
            else (Inr False, st \<lparr> cm_store := s1 \<rparr>))"

definition CacheManager_get ::
  "'a cache_config \<Rightarrow> 's cache_adapter \<Rightarrow> int \<Rightarrow> string \<Rightarrow> 's cache_state \<Rightarrow>
   (cache_error + 'a option) \<times> 's cache_state" where
  "CacheManager_get cfg ad now key st =
     (if \<not> cc_enabled cfg then (Inr None, st)
      else
        let cacheKey = buildKey cfg key in
        case ad_get ad cacheKey (cm_store st) of
          (Inl msg, s1) \<Rightarrow>
            (Inl (CacheError (''Failed to get cache entry: '' @ msg)), st \<lparr> cm_store := s1 \<rparr>)
        | (Inr None, s1) \<Rightarrow> (Inr None, count_miss (st \<lparr> cm_store := s1 \<rparr>))
        | (Inr (Some entry), s1) \<Rightarrow>
            if isExpired now entry then
              (case CacheManager_delete cfg ad key (st \<lparr> cm_store := s1 \<rparr>) of
                 (Inl (CacheError msg), st2) \<Rightarrow>
                   (Inl (CacheError (''Failed to get cache entry: '' @ msg)), st2)
               | (Inr deleted, st2) \<Rightarrow> (Inr None, count_miss st2))
            else
              (case ad_set ad cacheKey (entry \<lparr> ce_hits := ce_hits entry + 1 \<rparr>) s1 of
                 (Inl msg, s2) \<Rightarrow>
                   (Inl (CacheError (''Failed to get cache entry: '' @ msg)), st \<lparr> cm_store := s2 \<rparr>)
               | (Inr u, s2) \<Rightarrow>
                   (Inr (Some (cc_deserialize cfg (ce_data entry))),
                    count_hit (st \<lparr> cm_store := s2 \<rparr>))))"

text \<open>\<open>set(key, data, options)\<close>; \<open>ttl_opt\<close> is \<open>options.ttl\<close>.\<close>

definition CacheManager_set ::
  "'a cache_config \<Rightarrow> 's cache_adapter \<Rightarrow> int \<Rightarrow> string \<Rightarrow> 'a \<Rightarrow> int option \<Rightarrow>
   's cache_state \<Rightarrow> (cache_error + unit) \<times> 's cache_state" where
  "CacheManager_set cfg ad now key payload ttl_opt st =
     (if \<not> cc_enabled cfg then (Inr (), st)
      else
        let cacheKey = buildKey cfg key;
            ttl = (case ttl_opt of Some t \<Rightarrow> t | None \<Rightarrow> cc_defaultTTL cfg);
            entry = \<lparr> ce_data = cc_serialize cfg payload, ce_expiresAt = now + ttl,
                      ce_createdAt = now, ce_hits = 0 \<rparr>
        in case ad_set ad cacheKey entry (cm_store st) of
             (Inl msg, s1) \<Rightarrow>
               (Inl (CacheError (''Failed to set cache entry: '' @ msg)), st \<lparr> cm_store := s1 \<rparr>)
           | (Inr u, s1) \<Rightarrow>
               (case ad_size ad s1 of
                  (Inl msg, s2) \<Rightarrow>
                    (Inl (CacheError (''Failed to set cache entry: '' @ msg)),
                     st \<lparr> cm_store := s2,
                          cm_stats := (cm_stats st) \<lparr> cs_sets := cs_sets (cm_stats st) + 1 \<rparr> \<rparr>)
                | (Inr n, s2) \<Rightarrow>
                    (Inr (),
                     st \<lparr> cm_store := s2,
                          cm_stats := (cm_stats st) \<lparr> cs_sets := cs_sets (cm_stats st) + 1,
                                                    cs_size := n \<rparr> \<rparr>)))"

subsection \<open>The default adapter: \<open>MemoryCacheAdapter\<close>\<close>

text \<open>A JavaScript \<open>Map\<close> keeps insertion order: an association list.  \<open>Map.set\<close> on a
  key already present replaces the value in place, otherwise it appends.\<close>

type_synonym mem_store = "(string \<times> cache_entry) list"

definition Map_set :: "mem_store \<Rightarrow> string \<Rightarrow> cache_entry \<Rightarrow> mem_store" where
  "Map_set m k v =
     (if k \<in> fst ` set m then map (\<lambda>kv. if fst kv = k then (k, v) else kv) m
      else m @ [(k, v)])"

definition Map_delete :: "mem_store \<Rightarrow> string \<Rightarrow> mem_store" where
  "Map_delete m k = filter (\<lambda>kv. fst kv \<noteq> k) m"

definition MemoryCacheAdapter_set ::
  "nat \<Rightarrow> string \<Rightarrow> cache_entry \<Rightarrow> mem_store \<Rightarrow> mem_store" where
  "MemoryCacheAdapter_set maxSize key v cache =
     (let cache1 =
            (if length cache \<ge> maxSize \<and> key \<notin> fst ` set cache then
               (case cache of
                  [] \<Rightarrow> cache
                | (firstKey, e) # rest \<Rightarrow>
                    if firstKey \<noteq> [] then Map_delete cache firstKey else cache)
             else cache)
      in Map_set cache1 key v)"

definition MemoryCacheAdapter :: "nat \<Rightarrow> mem_store cache_adapter" where
  "MemoryCacheAdapter maxSize =
     \<lparr> ad_get = (\<lambda>key cache. (Inr (map_of cache key), cache)),
       ad_set = (\<lambda>key v cache. (Inr (), MemoryCacheAdapter_set maxSize key v cache)),
       ad_delete = (\<lambda>key cache. (Inr (key \<in> fst ` set cache), Map_delete cache key)),
       ad_size = (\<lambda>cache. (Inr (length cache), cache)) \<rparr>"

text \<open>A sequence of reads of one key at the given times; the results in order, and the
  final state.\<close>

fun gets ::
  "'a cache_config \<Rightarrow> 's cache_adapter \<Rightarrow> string \<Rightarrow> int list \<Rightarrow> 's cache_state \<Rightarrow>
   (cache_error + 'a option) list \<times> 's cache_state" where
  "gets cfg ad key [] st = ([], st)"
| "gets cfg ad key (t # ts) st =
     (let (r, st1) = CacheManager_get cfg ad t key st;
          (rs, st2) = gets cfg ad key ts st1
      in (r # rs, st2))"


subsection \<open>Time-to-live and lazy expiry\<close>

definition demo_cache_config :: "string cache_config" where
  "demo_cache_config = \<lparr> cc_enabled = True, cc_defaultTTL = 300000, cc_maxSize = 1000,
      cc_keyPrefix = ''api_cache_'', cc_serialize = (\<lambda>x. x), cc_deserialize = (\<lambda>x. x) \<rparr>"

definition empty_cache :: "mem_store cache_state" where
  "empty_cache = \<lparr> cm_store = [], cm_stats = \<lparr> cs_hits = 0, cs_misses = 0, cs_sets = 0, cs_deletes = 0, cs_size = 0, cs_hitRate = 0 \<rparr> \<rparr>"

lemma map_of_Map_set: "map_of (Map_set m k v) k = Some v"
proof (cases "k \<in> fst ` set m")
  case True
  have "k \<in> fst ` set m \<Longrightarrow> map_of (map (\<lambda>kv. if fst kv = k then (k, v) else kv) m) k = Some v"
    by (induction m) auto
  with True show ?thesis by (simp add: Map_set_def)
next
  case False
  then have "map_of m k = None" by (simp add: map_of_eq_None_iff)
  with False show ?thesis by (simp add: Map_set_def map_add_def)
qed

lemma map_of_MemoryCacheAdapter_set:
  "map_of (MemoryCacheAdapter_set n k v m) k = Some v"
  by (simp add: MemoryCacheAdapter_set_def Let_def map_of_Map_set)

lemma map_of_Map_delete: "map_of (Map_delete m k) k = None"
  by (auto simp add: Map_delete_def map_of_eq_None_iff)

lemma CacheManager_get_hit:
  assumes "cc_enabled cfg" and "map_of (cm_store st) (buildKey cfg key) = Some e"
    and "now \<le> ce_expiresAt e"
  shows "fst (CacheManager_get cfg (MemoryCacheAdapter n) now key st) =
           Inr (Some (cc_deserialize cfg (ce_data e))) \<and>
         map_of (cm_store (snd (CacheManager_get cfg (MemoryCacheAdapter n) now key st)))
            (buildKey cfg key) = Some (e \<lparr> ce_hits := ce_hits e + 1 \<rparr>)"
  using assms
  by (simp add: CacheManager_get_def MemoryCacheAdapter_def isExpired_def Let_def
      map_of_MemoryCacheAdapter_set count_hit_def)

lemma CacheManager_get_expired:
  assumes "cc_enabled cfg" and "map_of (cm_store st) (buildKey cfg key) = Some e"
    and "ce_expiresAt e < now"
  shows "fst (CacheManager_get cfg (MemoryCacheAdapter n) now key st) = Inr None \<and>
         map_of (cm_store (snd (CacheManager_get cfg (MemoryCacheAdapter n) now key st)))
            (buildKey cfg key) = None"
proof -
  have "buildKey cfg key \<in> fst ` set (cm_store st)"
    using assms(2) by (metis map_of_eq_None_iff option.distinct(1))
  then show ?thesis using assms
  by (simp add: CacheManager_get_def CacheManager_delete_def MemoryCacheAdapter_def isExpired_def Let_def
      map_of_Map_delete count_miss_def)
qed

lemma gets_hits:
  assumes "cc_enabled cfg" and "map_of (cm_store st) (buildKey cfg key) = Some e"
    and "\<forall>t\<in>set ts. t \<le> ce_expiresAt e"
  shows "fst (gets cfg (MemoryCacheAdapter n) key ts st) =
           replicate (length ts) (Inr (Some (cc_deserialize cfg (ce_data e)))) \<and>
         (\<exists>e'. map_of (cm_store (snd (gets cfg (MemoryCacheAdapter n) key ts st))) (buildKey cfg key) = Some e'
              \<and> ce_data e' = ce_data e \<and> ce_expiresAt e' = ce_expiresAt e)"
  using assms
proof (induction ts arbitrary: st e)
  case Nil
  then show ?case by simp
next
  case (Cons t ts)
  let ?g = "CacheManager_get cfg (MemoryCacheAdapter n) t key st"
  have h: "fst ?g = Inr (Some (cc_deserialize cfg (ce_data e)))"
     "map_of (cm_store (snd ?g)) (buildKey cfg key) = Some (e \<lparr> ce_hits := ce_hits e + 1 \<rparr>)"
    using CacheManager_get_hit [OF Cons.prems(1,2), of t n] Cons.prems(3) by simp_all
  have "\<forall>t\<in>set ts. t \<le> ce_expiresAt (e \<lparr> ce_hits := ce_hits e + 1 \<rparr>)" using Cons.prems(3) by simp
  from Cons.IH [OF Cons.prems(1) h(2) this] h(1)
  show ?case by (simp add: split_beta)
qed

lemma CacheManager_set_stores:
  assumes "cc_enabled cfg"
  shows "fst (CacheManager_set cfg (MemoryCacheAdapter n) t0 key payload ttl_opt st) = Inr () \<and>
    map_of (cm_store (snd (CacheManager_set cfg (MemoryCacheAdapter n) t0 key payload ttl_opt st))) (buildKey cfg key)
     = Some \<lparr> ce_data = cc_serialize cfg payload, ce_expiresAt = t0 + (case ttl_opt of Some t \<Rightarrow> t | None \<Rightarrow> cc_defaultTTL cfg),
                      ce_createdAt = t0, ce_hits = 0 \<rparr>"
  using assms by (simp add: CacheManager_set_def MemoryCacheAdapter_def Let_def map_of_MemoryCacheAdapter_set)

text \<open>
  Claim C8: an entry stored by \<open>set\<close> at time \<open>t0\<close> with time-to-live \<open>T\<close> (the
  per-call \<open>ttl\<close>, else the default) in the default in-memory store.  Every read of the
  key at a time up to \<open>t0 + T\<close> is a hit and returns the stored payload (read back through
  the configured \<open>deserialize\<close>), however many reads there are; a read after \<open>t0 + T\<close>
  returns null, and the entry, still in the store before that read, is gone after it.
\<close>

theorem C8_cache_ttl:
  assumes "cc_enabled cfg" and "ad = MemoryCacheAdapter (cc_maxSize cfg)"
    and "T = (case ttl_opt of Some t \<Rightarrow> t | None \<Rightarrow> cc_defaultTTL cfg)"
    and "st1 = snd (CacheManager_set cfg ad t0 key payload ttl_opt st0)"
    and "\<forall>t\<in>set ts. t \<le> t0 + T"
    and "st2 = snd (gets cfg ad key ts st1)"
    and "t0 + T < t'"
  shows "fst (CacheManager_set cfg ad t0 key payload ttl_opt st0) = Inr () \<and>
         fst (gets cfg ad key ts st1) =
           replicate (length ts) (Inr (Some (cc_deserialize cfg (cc_serialize cfg payload)))) \<and>
         map_of (cm_store st2) (buildKey cfg key) \<noteq> None \<and>
         fst (CacheManager_get cfg ad t' key st2) = Inr None \<and>
         map_of (cm_store (snd (CacheManager_get cfg ad t' key st2))) (buildKey cfg key) = None"
proof -
  let ?e = "\<lparr> ce_data = cc_serialize cfg payload, ce_expiresAt = t0 + T,
                      ce_createdAt = t0, ce_hits = 0 \<rparr>"
  have s: "fst (CacheManager_set cfg ad t0 key payload ttl_opt st0) = Inr ()"
     "map_of (cm_store st1) (buildKey cfg key) = Some ?e"
    using CacheManager_set_stores [OF assms(1), of "cc_maxSize cfg" t0 key payload ttl_opt st0] assms(2,3,4) by simp_all
  have "\<forall>t\<in>set ts. t \<le> ce_expiresAt ?e" using assms(5) by simp
  from gets_hits [OF assms(1) s(2) this, of "cc_maxSize cfg"]
  obtain e' where g: "fst (gets cfg ad key ts st1) =
           replicate (length ts) (Inr (Some (cc_deserialize cfg (cc_serialize cfg payload))))"
     "map_of (cm_store st2) (buildKey cfg key) = Some e'" "ce_expiresAt e' = t0 + T"
    using assms(2,6) by auto
  have "ce_expiresAt e' < t'" using g(3) assms(7) by simp
  from CacheManager_get_expired [OF assms(1) g(2) this, of "cc_maxSize cfg"] s(1) g(1,2) assms(2)
  show ?thesis by simp
qed

theorem C8_cache_ttl_witness:
  "fst (gets demo_cache_config (MemoryCacheAdapter 1000) ''k'' [2000, 6000]
      (snd (CacheManager_set demo_cache_config (MemoryCacheAdapter 1000) 1000 ''k'' ''payload'' (Some 5000) empty_cache)))
     = [Inr (Some ''payload''), Inr (Some ''payload'')] \<and>
   fst (CacheManager_get demo_cache_config (MemoryCacheAdapter 1000) 6001 ''k''
      (snd (gets demo_cache_config (MemoryCacheAdapter 1000) ''k'' [2000, 6000]
      (snd (CacheManager_set demo_cache_config (MemoryCacheAdapter 1000) 1000 ''k'' ''payload'' (Some 5000) empty_cache))))) = Inr None \<and>
   map_of (cm_store (snd (CacheManager_get demo_cache_config (MemoryCacheAdapter 1000) 6001 ''k''
      (snd (gets demo_cache_config (MemoryCacheAdapter 1000) ''k'' [2000, 6000]
      (snd (CacheManager_set demo_cache_config (MemoryCacheAdapter 1000) 1000 ''k'' ''payload'' (Some 5000) empty_cache))))))) ''api_cache_k'' = None"
  using C8_cache_ttl [of demo_cache_config "MemoryCacheAdapter 1000" 5000 "Some 5000" _ 1000 "''k''" "''payload''" empty_cache "[2000, 6000]" _ 6001, OF _ _ _ refl _ refl]
  by (simp add: demo_cache_config_def buildKey_def)



section \<open>Single-flight table (\<open>deduplication/deduplication-manager.ts\<close>)\<close>

text \<open>
  Promises are identified by numbers.  A caller of \<open>executeRequest\<close> receives the handle
  of the promise it will await; two callers holding the same handle observe the same
  settlement.  Invoking a request executor creates a promise: the manager counts these
  invocations (\<open>dm_executor_calls\<close>) and the promises made (\<open>dm_next_promise\<close>).  The
  \<open>AbortController\<close> of a managed request goes by the number of its promise;
  \<open>dm_finally\<close> holds, for each managed promise, the key that its \<open>finally\<close> callback
  captured.  The pending table is a \<open>Map\<close>, in insertion order.
\<close>

record dedup_stats =
  totalRequests :: nat
  deduplicatedRequests :: nat
  activeRequests :: nat
  deduplicationRate :: real

record pending_request =
  pr_promise :: nat
  pr_timestamp :: int

datatype 'e dedup_error = Original 'e | Cancelled

type_synonym key_generator =
  "string \<Rightarrow> string \<Rightarrow> json option \<Rightarrow> (string \<times> json) list option \<Rightarrow> string"

record ('e, 'r) dedup_manager =
  dm_enabled :: bool
  dm_timeout :: int
  dm_keyGenerator :: key_generator
  dm_pendingRequests :: "(string \<times> pending_request) list"
  dm_stats :: dedup_stats
  dm_executor_calls :: nat
  dm_next_promise :: nat
  dm_finally :: "(nat \<times> string) list"
  dm_aborted :: "nat list"
  dm_settled :: "(nat \<times> ('e dedup_error + 'r)) list"

record dedup_config =
  dc_enabled :: "bool option"
  dc_timeout :: "int option"
  dc_keyGenerator :: "key_generator option"

text \<open>The constructor: \<open>enabled ?? true\<close>, \<open>timeout ?? 30000\<close>, and the default key
  generator unless one is configured.\<close>

definition DeduplicationManager_new :: "dedup_config \<Rightarrow> ('e, 'r) dedup_manager" where
  "DeduplicationManager_new config =
     \<lparr> dm_enabled = (case dc_enabled config of Some b \<Rightarrow> b | None \<Rightarrow> True),
       dm_timeout = (case dc_timeout config of Some t \<Rightarrow> t | None \<Rightarrow> 30000),
       dm_keyGenerator =
         (case dc_keyGenerator config of Some g \<Rightarrow> g | None \<Rightarrow> defaultKeyGenerator),
       dm_pendingRequests = [],
       dm_stats = \<lparr> totalRequests = 0, deduplicatedRequests = 0, activeRequests = 0,
                    deduplicationRate = 0 \<rparr>,
       dm_executor_calls = 0, dm_next_promise = 0, dm_finally = [], dm_aborted = [],
       dm_settled = [] \<rparr>"

definition updateDeduplicationRate :: "dedup_stats \<Rightarrow> dedup_stats" where
  "updateDeduplicationRate s =
     (if totalRequests s > 0
      then s \<lparr> deduplicationRate :=
                 real (deduplicatedRequests s) / real (totalRequests s) * 100 \<rparr>
      else s)"

text \<open>Invoking the executor: one more invocation, one more promise.\<close>

definition invoke_executor :: "('e, 'r) dedup_manager \<Rightarrow> nat \<times> ('e, 'r) dedup_manager" where
  "invoke_executor mgr =
     (dm_next_promise mgr,
      mgr \<lparr> dm_executor_calls := dm_executor_calls mgr + 1,
            dm_next_promise := dm_next_promise mgr + 1 \<rparr>)"

text \<open>\<open>executeRequest(method, url, requestExecutor, data, params)\<close> up to its return: the
  handle of the promise returned, and the manager afterwards.\<close>

definition executeRequest ::
  "('e, 'r) dedup_manager \<Rightarrow> int \<Rightarrow> string \<Rightarrow> string \<Rightarrow> json option \<Rightarrow>
   (string \<times> json) list option \<Rightarrow> nat \<times> ('e, 'r) dedup_manager" where
  "executeRequest mgr now meth url payload params =
     (if \<not> dm_enabled mgr then invoke_executor mgr
      else
        let key = dm_keyGenerator mgr meth url payload params;
            mgr1 = mgr \<lparr> dm_stats := (dm_stats mgr)
                          \<lparr> totalRequests := totalRequests (dm_stats mgr) + 1 \<rparr> \<rparr>
        in case map_of (dm_pendingRequests mgr1) key of
             Some existingRequest \<Rightarrow>
               (pr_promise existingRequest,
                mgr1 \<lparr> dm_stats := updateDeduplicationRate ((dm_stats mgr1)
                          \<lparr> deduplicatedRequests := deduplicatedRequests (dm_stats mgr1) + 1 \<rparr>) \<rparr>)
           | None \<Rightarrow>
               let (promise, mgr2) = invoke_executor mgr1;
                   pendingRequest = \<lparr> pr_promise = promise, pr_timestamp = now \<rparr>;
                   table = dm_pendingRequests mgr2 @ [(key, pendingRequest)]
               in (promise,
                   mgr2 \<lparr> dm_pendingRequests := table,
                          dm_stats := (dm_stats mgr2) \<lparr> activeRequests := length table \<rparr>,
                          dm_finally := dm_finally mgr2 @ [(promise, key)] \<rparr>))"

text \<open>\<open>createManagedRequest\<close>: what the managed promise \<open>p\<close> settles with when the
  executor's promise settles with \<open>outcome\<close>.  A rejection becomes the cancellation error
  when the controller was aborted.  (A promise made while deduplication is disabled is
  the executor's own.)\<close>

definition managed_outcome ::
  "('e, 'r) dedup_manager \<Rightarrow> nat \<Rightarrow> 'e + 'r \<Rightarrow> 'e dedup_error + 'r" where
  "managed_outcome mgr p outcome =
     (case outcome of
        Inr v \<Rightarrow> Inr v
      | Inl e \<Rightarrow>
          if p \<in> fst ` set (dm_finally mgr) \<and> p \<in> set (dm_aborted mgr) then Inl Cancelled
          else Inl (Original e))"

text \<open>The promise \<open>p\<close> settles, and its \<open>finally\<close> callback deletes the captured key
  from the table.\<close>

definition settle ::
  "('e, 'r) dedup_manager \<Rightarrow> nat \<Rightarrow> 'e + 'r \<Rightarrow> ('e, 'r) dedup_manager" where
  "settle mgr p outcome =
     (let mgr1 = mgr \<lparr> dm_settled := dm_settled mgr @ [(p, managed_outcome mgr p outcome)] \<rparr>
      in case map_of (dm_finally mgr) p of
           None \<Rightarrow> mgr1
         | Some key \<Rightarrow>
             let table = filter (\<lambda>kv. fst kv \<noteq> key) (dm_pendingRequests mgr)
             in mgr1 \<lparr> dm_pendingRequests := table,
                       dm_stats := (dm_stats mgr) \<lparr> activeRequests := length table \<rparr> \<rparr>)"

definition cleanupExpiredRequests ::
  "('e, 'r) dedup_manager \<Rightarrow> int \<Rightarrow> ('e, 'r) dedup_manager" where
  "cleanupExpiredRequests mgr now =
     (let expired = filter (\<lambda>kv. now - pr_timestamp (snd kv) > dm_timeout mgr)
                      (dm_pendingRequests mgr);
          table = filter (\<lambda>kv. \<not> (now - pr_timestamp (snd kv) > dm_timeout mgr))
                      (dm_pendingRequests mgr);
          cleanedCount = length expired;
          mgr1 = mgr \<lparr> dm_aborted := dm_aborted mgr @ map (\<lambda>kv. pr_promise (snd kv)) expired,
                       dm_pendingRequests := table \<rparr>
      in if cleanedCount > 0
         then mgr1 \<lparr> dm_stats := (dm_stats mgr1) \<lparr> activeRequests := length table \<rparr> \<rparr>
         else mgr1)"

definition clear_d :: "('e, 'r) dedup_manager \<Rightarrow> ('e, 'r) dedup_manager" where
  "clear_d mgr =
     mgr \<lparr> dm_aborted := dm_aborted mgr @ map (\<lambda>kv. pr_promise (snd kv)) (dm_pendingRequests mgr),
           dm_pendingRequests := [],
           dm_stats := (dm_stats mgr) \<lparr> activeRequests := 0 \<rparr> \<rparr>"

text \<open>What a caller holding handle \<open>h\<close> observes once the promise has settled.\<close>

definition await_d :: "('e, 'r) dedup_manager \<Rightarrow> nat \<Rightarrow> ('e dedup_error + 'r) option" where
  "await_d mgr h = map_of (dm_settled mgr) h"

text \<open>Identical requests issued one after the other at the given times, nothing settling
  and no sweep running in between: the handles returned, in order, and the final manager.\<close>

fun executeRequests ::
  "('e, 'r) dedup_manager \<Rightarrow> int list \<Rightarrow> string \<Rightarrow> string \<Rightarrow> json option \<Rightarrow>
   (string \<times> json) list option \<Rightarrow> nat list \<times> ('e, 'r) dedup_manager" where
  "executeRequests mgr [] meth url payload params = ([], mgr)"
| "executeRequests mgr (t # ts) meth url payload params =
     (let (h, mgr1) = executeRequest mgr t meth url payload params;
          (hs, mgr2) = executeRequests mgr1 ts meth url payload params
      in (h # hs, mgr2))"


subsection \<open>At most one execution per key\<close>

definition dedup_on :: "(api_error, string) dedup_manager" where
  "dedup_on = DeduplicationManager_new \<lparr> dc_enabled = Some True, dc_timeout = None, dc_keyGenerator = None \<rparr>"
definition dedup_off :: "(api_error, string) dedup_manager" where
  "dedup_off = DeduplicationManager_new \<lparr> dc_enabled = Some False, dc_timeout = None, dc_keyGenerator = None \<rparr>"

text \<open>A first request at time 0, and an identical one at time 60001, after the sweep
  of time 60000.\<close>

definition first_request :: "nat \<times> (api_error, string) dedup_manager" where
  "first_request = executeRequest dedup_on 0 ''GET'' ''/users/1'' None None"

definition late_request :: "nat \<times> (api_error, string) dedup_manager" where
  "late_request =
     executeRequest (cleanupExpiredRequests (snd first_request) 60000) 60001
       ''GET'' ''/users/1'' None None"

lemma executeRequest_existing:
  assumes "dm_enabled mgr" and "map_of (dm_pendingRequests mgr) (dm_keyGenerator mgr meth url payload params) = Some pr"
  shows "fst (executeRequest mgr now meth url payload params) = pr_promise pr"
    and "dm_executor_calls (snd (executeRequest mgr now meth url payload params)) = dm_executor_calls mgr"
    and "dm_pendingRequests (snd (executeRequest mgr now meth url payload params)) = dm_pendingRequests mgr"
    and "dm_enabled (snd (executeRequest mgr now meth url payload params))"
    and "dm_keyGenerator (snd (executeRequest mgr now meth url payload params)) = dm_keyGenerator mgr"
  using assms by (simp_all add: executeRequest_def Let_def)

lemma executeRequest_new:
  assumes "dm_enabled mgr" and "map_of (dm_pendingRequests mgr) (dm_keyGenerator mgr meth url payload params) = None"
  shows "fst (executeRequest mgr now meth url payload params) = dm_next_promise mgr"
    and "dm_executor_calls (snd (executeRequest mgr now meth url payload params)) = dm_executor_calls mgr + 1"
    and "map_of (dm_pendingRequests (snd (executeRequest mgr now meth url payload params)))
           (dm_keyGenerator mgr meth url payload params) = Some \<lparr> pr_promise = dm_next_promise mgr, pr_timestamp = now \<rparr>"
    and "dm_enabled (snd (executeRequest mgr now meth url payload params))"
    and "dm_keyGenerator (snd (executeRequest mgr now meth url payload params)) = dm_keyGenerator mgr"
  using assms by (simp_all add: executeRequest_def Let_def invoke_executor_def split_beta map_add_def)

lemma executeRequests_existing:
  assumes "dm_enabled mgr" and "map_of (dm_pendingRequests mgr) (dm_keyGenerator mgr meth url payload params) = Some pr"
  shows "fst (executeRequests mgr ts meth url payload params) = replicate (length ts) (pr_promise pr) \<and>
         dm_executor_calls (snd (executeRequests mgr ts meth url payload params)) = dm_executor_calls mgr"
  using assms
proof (induction ts arbitrary: mgr)
  case Nil
  then show ?case by simp
next
  case (Cons t ts)
  let ?m = "snd (executeRequest mgr t meth url payload params)"
  note e = executeRequest_existing [OF Cons.prems, of t]
  have "map_of (dm_pendingRequests ?m) (dm_keyGenerator ?m meth url payload params) = Some pr"
    using e(3,5) Cons.prems(2) by simp
  from Cons.IH [OF e(4) this] e(1,2) show ?case by (simp add: split_beta)
qed

text \<open>
  Claim C1 as stated promises one executor run for any \<open>N\<close> identical requests issued
  before any of them resolves.  Two inputs refute that.  A manager constructed with
  \<open>enabled: false\<close> passes every call straight to the executor: two identical requests
  run it twice and get different promises.  And in an enabled manager (timeout 30000)
  the staleness sweep at time 60000 evicts the entry registered at time 0; an identical
  request at time 60001, while the first is still unsettled, finds no entry and runs the
  executor a second time.
\<close>

theorem C1_executor_runs_twice:
  "fst (executeRequests dedup_off [0, 1] ''GET'' ''/users/1'' None None) = [0, 1] \<and>
   dm_executor_calls (snd (executeRequests dedup_off [0, 1] ''GET'' ''/users/1'' None None)) = 2 \<and>
   fst first_request = 0 \<and>
   fst late_request = 1 \<and>
   dm_executor_calls (snd late_request) = 2 \<and>
   dm_settled (snd late_request) = []"
  by (simp add: first_request_def late_request_def dedup_on_def dedup_off_def
      DeduplicationManager_new_def executeRequest_def invoke_executor_def
      cleanupExpiredRequests_def Let_def split_beta)

text \<open>
  Claim C1, amended: in a manager with deduplication enabled, a call to
  \<open>executeRequest\<close> whose key has an entry in the pending table returns that entry's
  promise and does not invoke the executor; hence \<open>N \<ge> 1\<close> identical requests issued
  while no entry for the key was present before the first, and with nothing settling and
  no sweep or \<open>clear\<close> removing the entry between them, invoke the executor exactly once
  and all receive the same promise (so the same outcome, value or error).
\<close>

theorem C1_single_flight:
  assumes "dm_enabled mgr" and "key = dm_keyGenerator mgr meth url payload params"
  shows "(map_of (dm_pendingRequests mgr) key = Some pr \<longrightarrow>
            fst (executeRequest mgr now meth url payload params) = pr_promise pr \<and>
            dm_executor_calls (snd (executeRequest mgr now meth url payload params)) =
              dm_executor_calls mgr) \<and>
         (map_of (dm_pendingRequests mgr) key = None \<and> ts \<noteq> [] \<longrightarrow>
            fst (executeRequests mgr ts meth url payload params) =
              replicate (length ts) (dm_next_promise mgr) \<and>
            dm_executor_calls (snd (executeRequests mgr ts meth url payload params)) =
              dm_executor_calls mgr + 1)"
proof (intro conjI impI)
  assume a: "map_of (dm_pendingRequests mgr) key = Some pr"
  then show "fst (executeRequest mgr now meth url payload params) = pr_promise pr"
    and "dm_executor_calls (snd (executeRequest mgr now meth url payload params)) = dm_executor_calls mgr"
    using executeRequest_existing(1,2) [of mgr meth url payload params pr now] assms by simp_all
next
  assume a: "map_of (dm_pendingRequests mgr) key = None \<and> ts \<noteq> []"
  then obtain t ts' where ts: "ts = t # ts'" by (cases ts) auto
  let ?m = "snd (executeRequest mgr t meth url payload params)"
  have n: "map_of (dm_pendingRequests mgr) (dm_keyGenerator mgr meth url payload params) = None"
    using a assms(2) by simp
  note e = executeRequest_new [OF assms(1) n, of t]
  have "map_of (dm_pendingRequests ?m) (dm_keyGenerator ?m meth url payload params) =
     Some \<lparr> pr_promise = dm_next_promise mgr, pr_timestamp = t \<rparr>"
    using e(3,5) by simp
  from executeRequests_existing [OF e(4) this, of ts'] e(1,2)
  show "fst (executeRequests mgr ts meth url payload params) =
              replicate (length ts) (dm_next_promise mgr)"
   and "dm_executor_calls (snd (executeRequests mgr ts meth url payload params)) =
              dm_executor_calls mgr + 1"
    by (simp_all add: ts split_beta)
qed

theorem C1_single_flight_witness:
  "fst (executeRequests dedup_on [0, 1, 2] ''GET'' ''/users/1'' None None) = [0, 0, 0] \<and>
   dm_executor_calls (snd (executeRequests dedup_on [0, 1, 2] ''GET'' ''/users/1'' None None)) = 1 \<and>
   fst (executeRequest (snd first_request) 5 ''GET'' ''/users/1'' None None) = 0 \<and>
   dm_executor_calls (snd (executeRequest (snd first_request) 5 ''GET'' ''/users/1'' None None)) = 1"
  using
    C1_single_flight [of dedup_on _ "''GET''" "''/users/1''" None None _ _ "[0, 1, 2]",
      OF _ refl]
    C1_single_flight [of "snd first_request" _  "''GET''" "''/users/1''" None None
      "\<lparr> pr_promise = 0, pr_timestamp = 0 \<rparr>" 5, OF _ refl]
  by (simp add: first_request_def dedup_on_def DeduplicationManager_new_def executeRequest_def
      invoke_executor_def Let_def split_beta)

section \<open>Credential refresh coordinator (\<open>auth/auth-manager.ts\<close>)\<close>

text \<open>
  \<open>refreshToken\<close> and \<open>performTokenRefresh\<close> are asynchronous; the model runs them in
  the segments that the scheduler cannot interleave.  A call of \<open>refreshToken\<close> either
  rejects at once or hands the caller the handle of the refresh promise.  When it creates
  the promise, \<open>performTokenRefresh\<close> has read the stored refresh token and is
  suspended (\<open>Created\<close>, with the token read); its continuation (\<open>refresh_start\<close>) either rejects or posts to the
  refresh endpoint and suspends again (\<open>Posted\<close>); the answer of the endpoint
  (\<open>refresh_response\<close>) settles the promise.  The \<open>finally\<close> of \<open>refreshToken\<close>, which
  resets \<open>refreshPromise\<close>, runs with the settlement.  \<open>am_endpoint_calls\<close> counts the
  posts to the refresh endpoint and \<open>am_inflight\<close> those not yet answered.  The other
  methods (\<open>login\<close>, \<open>logout\<close>, \<open>getAccessToken\<close>, the refresh timer) act on this state
  through \<open>setTokens\<close>, \<open>clearTokens\<close> and \<open>refreshToken\<close> only.
\<close>

record token_storage =
  st_token :: "string option"
  st_refreshToken :: "string option"

datatype auth_error = AuthError (ae_message: string) (ae_code: string) (ae_status: "int option")

record auth_response =
  ar_accessToken :: string
  ar_refreshToken :: "string option"
  ar_tokenType :: "string option"
  ar_expiresIn :: "int option"

datatype refresh_op = Idle | Created nat "string option" | Posted nat string

datatype refresh_result = Rejects auth_error | Awaits nat

record auth_manager =
  am_enabled :: bool
  am_autoRefresh :: bool
  am_refreshThreshold :: int
  am_storage :: token_storage
  am_axiosInstance :: bool
  am_refreshPromise :: "nat option"
  am_refreshTimer :: "int option"
  am_op :: refresh_op
  am_next_promise :: nat
  am_endpoint_calls :: nat
  am_inflight :: nat
  am_settled :: "(nat \<times> (auth_error + string)) list"

definition AuthManager_new :: "bool \<Rightarrow> bool \<Rightarrow> int \<Rightarrow> token_storage \<Rightarrow> bool \<Rightarrow> auth_manager" where
  "AuthManager_new enabled autoRefresh refreshThreshold storage axios =
     \<lparr> am_enabled = enabled, am_autoRefresh = autoRefresh,
       am_refreshThreshold = refreshThreshold, am_storage = storage, am_axiosInstance = axios,
       am_refreshPromise = None, am_refreshTimer = None, am_op = Idle, am_next_promise = 0,
       am_endpoint_calls = 0, am_inflight = 0, am_settled = [] \<rparr>"

definition scheduleTokenRefresh :: "auth_manager \<Rightarrow> int \<Rightarrow> auth_manager" where
  "scheduleTokenRefresh mgr expiresInSeconds =
     mgr \<lparr> am_refreshTimer := Some (max (expiresInSeconds * 1000 - am_refreshThreshold mgr) 0) \<rparr>"

definition setTokens :: "auth_manager \<Rightarrow> auth_response \<Rightarrow> auth_manager" where
  "setTokens mgr tokens =
     (if \<not> am_enabled mgr then mgr
      else
        let s1 = (am_storage mgr) \<lparr> st_token := Some (ar_accessToken tokens) \<rparr>;
            s2 = (if truthy_str (ar_refreshToken tokens)
                  then s1 \<lparr> st_refreshToken := ar_refreshToken tokens \<rparr> else s1);
            mgr1 = mgr \<lparr> am_storage := s2 \<rparr>
        in if am_autoRefresh mgr \<and> truthy_num (ar_expiresIn tokens)
           then scheduleTokenRefresh mgr1 (the (ar_expiresIn tokens))
           else mgr1)"

definition clearTokens :: "auth_manager \<Rightarrow> auth_manager" where
  "clearTokens mgr =
     mgr \<lparr> am_storage := \<lparr> st_token = None, st_refreshToken = None \<rparr>,
           am_refreshTimer := None \<rparr>"

text \<open>The promise \<open>p\<close> of the refresh settles, and the \<open>finally\<close> block of
  \<open>refreshToken\<close> resets \<open>refreshPromise\<close>.\<close>

definition settle_refresh :: "auth_manager \<Rightarrow> nat \<Rightarrow> auth_error + string \<Rightarrow> auth_manager" where
  "settle_refresh mgr p outcome =
     mgr \<lparr> am_settled := am_settled mgr @ [(p, outcome)], am_refreshPromise := None,
           am_op := Idle \<rparr>"

definition refreshToken_call :: "auth_manager \<Rightarrow> refresh_result \<times> auth_manager" where
  "refreshToken_call mgr =
     (if \<not> am_enabled mgr
      then (Rejects (AuthError ''Authentication disabled'' ''CONFIG_ERROR'' None), mgr)
      else
        case am_refreshPromise mgr of
          Some p \<Rightarrow> (Awaits p, mgr)
        | None \<Rightarrow>
            let p = am_next_promise mgr
            in (Awaits p,
                mgr \<lparr> am_refreshPromise := Some p,
                      am_op := Created p (st_refreshToken (am_storage mgr)),
                      am_next_promise := p + 1 \<rparr>))"

text \<open>\<open>performTokenRefresh\<close> from the stored refresh token to the post.\<close>

definition refresh_start :: "auth_manager \<Rightarrow> auth_manager" where
  "refresh_start mgr =
     (case am_op mgr of
        Created p refreshToken \<Rightarrow>
          if \<not> truthy_str refreshToken then
            settle_refresh mgr p
              (Inl (AuthError ''No refresh token available'' ''REFRESH_TOKEN_EXPIRED'' None))
          else if \<not> am_axiosInstance mgr then
            settle_refresh mgr p
              (Inl (AuthError ''Axios instance not configured'' ''CONFIG_ERROR'' None))
          else
            mgr \<lparr> am_op := Posted p (the refreshToken),
                  am_endpoint_calls := am_endpoint_calls mgr + 1,
                  am_inflight := am_inflight mgr + 1 \<rparr>
      | _ \<Rightarrow> mgr)"

text \<open>\<open>performTokenRefresh\<close> from the answer of the endpoint to its end.\<close>

definition refresh_response :: "auth_manager \<Rightarrow> api_error + auth_response \<Rightarrow> auth_manager" where
  "refresh_response mgr answer =
     (case am_op mgr of
        Posted p refreshToken \<Rightarrow>
          let mgr1 = mgr \<lparr> am_inflight := am_inflight mgr - 1 \<rparr>
          in (case answer of
                Inr authData \<Rightarrow>
                  let mgr2 = setTokens mgr1
                        \<lparr> ar_accessToken = ar_accessToken authData,
                          ar_refreshToken =
                            (case ar_refreshToken authData of
                               Some t \<Rightarrow> Some t | None \<Rightarrow> Some refreshToken),
                          ar_tokenType = ar_tokenType authData,
                          ar_expiresIn = ar_expiresIn authData \<rparr>
                  in settle_refresh mgr2 p (Inr (ar_accessToken authData))
              | Inl error \<Rightarrow>
                  let mgr2 = clearTokens mgr1
                  in settle_refresh mgr2 p
                       (Inl (AuthError
                          (if truthy_str (err_response_message error)
                           then the (err_response_message error) else ''Token refresh failed'')
                          ''REFRESH_TOKEN_EXPIRED'' (err_response_status error))))
      | _ \<Rightarrow> mgr)"

datatype auth_event =
    EvRefreshCall
  | EvStart
  | EvResponse "api_error + auth_response"
  | EvSetTokens auth_response
  | EvClearTokens

fun auth_step :: "auth_manager \<Rightarrow> auth_event \<Rightarrow> auth_manager" where
  "auth_step mgr EvRefreshCall = snd (refreshToken_call mgr)"
| "auth_step mgr EvStart = refresh_start mgr"
| "auth_step mgr (EvResponse answer) = refresh_response mgr answer"
| "auth_step mgr (EvSetTokens tokens) = setTokens mgr tokens"
| "auth_step mgr EvClearTokens = clearTokens mgr"

definition auth_run :: "auth_manager \<Rightarrow> auth_event list \<Rightarrow> auth_manager" where
  "auth_run mgr events = foldl auth_step mgr events"


subsection \<open>One refresh in flight\<close>

definition auth_demo :: "string option \<Rightarrow> auth_manager" where
  "auth_demo rt = AuthManager_new True True 300000 \<lparr> st_token = Some ''access-1'', st_refreshToken = rt \<rparr> True"

text \<open>A manager with a refresh posted and not yet answered.\<close>

definition refresh_pending :: auth_manager where
  "refresh_pending = auth_run (auth_demo (Some ''refresh-1'')) [EvRefreshCall, EvStart]"

text \<open>The state of the suspended refresh, the \<open>refreshPromise\<close> field and the number of
  unanswered posts agree in every reachable state.\<close>

definition refresh_inv :: "auth_manager \<Rightarrow> bool" where
  "refresh_inv mgr =
     (case am_op mgr of
        Idle \<Rightarrow> am_refreshPromise mgr = None \<and> am_inflight mgr = 0
      | Created p t \<Rightarrow> am_refreshPromise mgr = Some p \<and> am_inflight mgr = 0 \<and> am_enabled mgr
      | Posted p t \<Rightarrow> am_refreshPromise mgr = Some p \<and> am_inflight mgr = 1 \<and> am_enabled mgr)"

lemma refresh_inv_new: "refresh_inv (AuthManager_new en ar th storage axios)"
  by (simp add: refresh_inv_def AuthManager_new_def)

lemma refresh_inv_step: "refresh_inv mgr \<Longrightarrow> refresh_inv (auth_step mgr ev)"
proof (cases ev)
  case EvRefreshCall
  assume "refresh_inv mgr"
  then show ?thesis using EvRefreshCall
    by (auto simp add: refresh_inv_def refreshToken_call_def Let_def split: refresh_op.splits option.splits)
next
  case EvStart
  assume "refresh_inv mgr"
  then show ?thesis using EvStart
    by (auto simp add: refresh_inv_def refresh_start_def settle_refresh_def split: refresh_op.splits)
next
  case (EvResponse answer)
  assume "refresh_inv mgr"
  then show ?thesis using EvResponse
    by (auto simp add: refresh_inv_def refresh_response_def settle_refresh_def clearTokens_def
        setTokens_def scheduleTokenRefresh_def Let_def split: refresh_op.splits sum.splits)
next
  case (EvSetTokens tokens)
  assume "refresh_inv mgr"
  then show ?thesis using EvSetTokens
    by (auto simp add: refresh_inv_def setTokens_def scheduleTokenRefresh_def Let_def split: refresh_op.splits)
next
  case EvClearTokens
  assume "refresh_inv mgr"
  then show ?thesis using EvClearTokens
    by (auto simp add: refresh_inv_def clearTokens_def split: refresh_op.splits)
qed

lemma refresh_inv_run: "refresh_inv mgr \<Longrightarrow> refresh_inv (auth_run mgr events)"
  unfolding auth_run_def
  by (induction events arbitrary: mgr) (simp_all add: refresh_inv_step)

text \<open>
  Claim C3 as stated says that on refresh failure the stored access and refresh tokens
  are cleared.  With an access token but no refresh token in the storage, a refresh is
  rejected (``No refresh token available'') by the check that precedes the \<open>try\<close> block of
  \<open>performTokenRefresh\<close>, and the access token stays in the storage.
\<close>

theorem C3_missing_refresh_token_keeps_access_token:
  "am_settled (auth_run (auth_demo None) [EvRefreshCall, EvStart]) =
     [(0, Inl (AuthError ''No refresh token available'' ''REFRESH_TOKEN_EXPIRED'' None))] \<and>
   st_token (am_storage (auth_run (auth_demo None) [EvRefreshCall, EvStart])) = Some ''access-1''"
  by (simp add: auth_run_def auth_demo_def AuthManager_new_def refreshToken_call_def
      refresh_start_def settle_refresh_def truthy_str_def)

text \<open>
  Claim C3, amended: in every state the manager can reach, at most one post to the
  refresh endpoint is unanswered; a call of \<open>refreshToken\<close> made while a refresh promise
  is pending returns the handle of that promise and changes nothing (so it issues no
  second call to the endpoint, and all concurrent callers await the same promise); and
  when the call to the refresh endpoint fails, the stored access and refresh tokens are
  cleared in the very step that rejects the promise, whose rejection is the
  \<open>AuthError\<close> all awaiting callers receive.  (A refresh rejected before it reaches the
  endpoint leaves the storage as it is.)
\<close>

theorem C3_refresh_coordinator:
  assumes "mgr = auth_run (AuthManager_new en ar th storage axios) events"
  shows "am_inflight mgr \<le> 1 \<and>
         (am_refreshPromise mgr = Some p \<longrightarrow> refreshToken_call mgr = (Awaits p, mgr)) \<and>
         (am_op mgr = Posted p rt \<longrightarrow>
            am_refreshPromise mgr = Some p \<and>
            am_storage (refresh_response mgr (Inl error)) =
              \<lparr> st_token = None, st_refreshToken = None \<rparr> \<and>
            am_settled (refresh_response mgr (Inl error)) = am_settled mgr @
              [(p, Inl (AuthError (if truthy_str (err_response_message error)
                           then the (err_response_message error) else ''Token refresh failed'')
                          ''REFRESH_TOKEN_EXPIRED'' (err_response_status error)))])"
proof -
  have inv: "refresh_inv mgr"
    unfolding assms by (intro refresh_inv_run refresh_inv_new)
  show ?thesis
  proof (intro conjI impI)
    show "am_inflight mgr \<le> 1"
      using inv by (auto simp add: refresh_inv_def split: refresh_op.splits)
  next
    assume "am_refreshPromise mgr = Some p"
    then show "refreshToken_call mgr = (Awaits p, mgr)"
      using inv by (auto simp add: refresh_inv_def refreshToken_call_def split: refresh_op.splits)
  next
    assume a: "am_op mgr = Posted p rt"
    then show "am_refreshPromise mgr = Some p"
      using inv by (simp add: refresh_inv_def)
    show "am_storage (refresh_response mgr (Inl error)) =
            \<lparr> st_token = None, st_refreshToken = None \<rparr>"
      using a by (simp add: refresh_response_def clearTokens_def settle_refresh_def)
    show "am_settled (refresh_response mgr (Inl error)) = am_settled mgr @
              [(p, Inl (AuthError (if truthy_str (err_response_message error)
                           then the (err_response_message error) else ''Token refresh failed'')
                          ''REFRESH_TOKEN_EXPIRED'' (err_response_status error)))]"
      using a by (simp add: refresh_response_def clearTokens_def settle_refresh_def)
  qed
qed

theorem C3_refresh_coordinator_witness:
  "am_inflight refresh_pending \<le> 1 \<and>
   refreshToken_call refresh_pending = (Awaits 0, refresh_pending) \<and>
   am_endpoint_calls (snd (refreshToken_call refresh_pending)) = 1 \<and>
   am_storage (refresh_response refresh_pending (Inl err_503)) =
      \<lparr> st_token = None, st_refreshToken = None \<rparr> \<and>
   am_settled (refresh_response refresh_pending (Inl err_503)) =
      [(0, Inl (AuthError ''Token refresh failed'' ''REFRESH_TOKEN_EXPIRED'' (Some 503)))]"
  using C3_refresh_coordinator [of refresh_pending True True 300000
      "\<lparr> st_token = Some ''access-1'', st_refreshToken = Some ''refresh-1'' \<rparr>" True
      "[EvRefreshCall, EvStart]" 0 "''refresh-1''" err_503]
  by (simp add: refresh_pending_def auth_run_def auth_demo_def AuthManager_new_def
      refreshToken_call_def refresh_start_def settle_refresh_def truthy_str_def err_503_def)

section \<open>Replay after an authorization failure (\<open>interceptors/auth.ts\<close>)\<close>

text \<open>
  The auth response interceptor.  Its collaborators are parameters: \<open>refreshToken\<close> is the
  awaited call \<open>authManager.refreshToken()\<close> and \<open>axiosInstance\<close> the Axios instance that
  replays a request; each returns what the caller receives (\<open>None\<close>: the promise never
  settles) and the world it leaves.  The world holds the auth manager, the interceptor's
  table \<open>refreshPromises\<close> (request id to the outcome of a replay registered by a handler
  still in progress), the auth log and the requests handed to the instance for replay.
  A handler registers its own replay in \<open>refreshPromises\<close> before it awaits it and deletes
  the entry afterwards; the table of the model holds the entries of other handlers only,
  and the deletion is kept.  An error on its way through the response handlers is a raw
  transport error (\<open>Axios\<close>), an \<open>AuthError\<close> (\<open>Auth\<close>) or an \<open>ApiError\<close> (\<open>Api\<close>).
\<close>

datatype failure = Axios api_error | Auth auth_error | Api api_error

record request_config =
  rq_method :: string
  rq_url :: string
  rq_headers :: "(string \<times> string) list"
  rq_retry :: bool
  rq_skipRetry :: bool
  rq_requestId :: "string option"

record http_response =
  hr_status :: int
  hr_statusText :: string
  hr_headers :: "(string \<times> string) list"
  hr_data :: json
  hr_fromCache :: bool

type_synonym outcome = "failure + http_response"

record world =
  w_auth :: auth_manager
  w_refreshPromises :: "(string \<times> outcome) list"
  w_log :: "string list"
  w_replayed :: "request_config list"

text \<open>\<open>authManager.getAuthHeader()\<close> and \<open>authManager.getBearerPrefix()\<close>.\<close>

record auth_env =
  env_tokenHeader :: string
  env_bearerPrefix :: string

definition logAuth :: "string \<Rightarrow> world \<Rightarrow> world" where
  "logAuth event w = w \<lparr> w_log := w_log w @ [event] \<rparr>"

definition header_set :: "(string \<times> string) list \<Rightarrow> string \<Rightarrow> string \<Rightarrow> (string \<times> string) list" where
  "header_set hs k v =
     (if k \<in> fst ` set hs then map (\<lambda>kv. if fst kv = k then (k, v) else kv) hs
      else hs @ [(k, v)])"

definition the_requestId :: "request_config \<Rightarrow> string" where
  "the_requestId rq = (if truthy_str (rq_requestId rq) then the (rq_requestId rq) else ''unknown'')"

definition refresh_failed :: failure where
  "refresh_failed =
     Auth (AuthError ''Failed to refresh authentication token'' ''REFRESH_TOKEN_EXPIRED'' None)"

definition performTokenRefreshAndRetry ::
  "auth_env \<Rightarrow> (world \<Rightarrow> (auth_error + string) option \<times> world) \<Rightarrow>
   (request_config \<Rightarrow> world \<Rightarrow> outcome option \<times> world) \<Rightarrow> request_config \<Rightarrow>
   string \<Rightarrow> world \<Rightarrow> outcome option \<times> world" where
  "performTokenRefreshAndRetry env refreshToken axiosInstance originalRequest requestId w =
     (case refreshToken w of
        (None, w0) \<Rightarrow> (None, w0)
      | (Some (Inl e), w0) \<Rightarrow> (Some (Inl refresh_failed), w0)
      | (Some (Inr newToken), w0) \<Rightarrow>
          let w1 = logAuth ''token_refreshed'' w0;
              rq1 = originalRequest
                      \<lparr> rq_headers := header_set (rq_headers originalRequest)
                           (env_tokenHeader env) (env_bearerPrefix env @ '' '' @ newToken),
                        rq_skipRetry := True \<rparr>
          in case axiosInstance rq1 w1 of
               (None, w2) \<Rightarrow> (None, w2)
             | (Some (Inr response), w2) \<Rightarrow> (Some (Inr response), w2)
             | (Some (Inl error), w2) \<Rightarrow> (Some (Inl refresh_failed), w2))"

definition handleUnauthorized ::
  "auth_env \<Rightarrow> (world \<Rightarrow> (auth_error + string) option \<times> world) \<Rightarrow>
   (request_config \<Rightarrow> world \<Rightarrow> outcome option \<times> world) \<Rightarrow> api_error \<Rightarrow>
   request_config \<Rightarrow> world \<Rightarrow> outcome option \<times> world" where
  "handleUnauthorized env refreshToken axiosInstance error originalRequest w =
     (if \<not> am_enabled (w_auth w) then (Some (Inl (Axios error)), w)
      else
        let requestId = the_requestId originalRequest in
        if rq_retry originalRequest then
          (let w1 = logAuth ''token_refresh_failed_retry'' w
           in (Some (Inl (Auth (AuthError ''Authentication failed after token refresh''
                                   ''TOKEN_EXPIRED'' None))),
               w1 \<lparr> w_auth := clearTokens (w_auth w1) \<rparr>))
        else
          case map_of (w_refreshPromises w) requestId of
            Some registered \<Rightarrow> (Some registered, w)
          | None \<Rightarrow>
              let marked = originalRequest \<lparr> rq_retry := True \<rparr>;
                  w1 = logAuth ''token_refresh_attempt'' w
              in case performTokenRefreshAndRetry env refreshToken axiosInstance marked
                        requestId w1 of
                   (None, w2) \<Rightarrow> (None, w2)
                 | (Some (Inr result), w2) \<Rightarrow>
                     (Some (Inr result),
                      w2 \<lparr> w_refreshPromises :=
                             filter (\<lambda>kv. fst kv \<noteq> requestId) (w_refreshPromises w2) \<rparr>)
                 | (Some (Inl refreshError), w2) \<Rightarrow>
                     let w3 = logAuth ''token_refresh_failed''
                                (w2 \<lparr> w_refreshPromises :=
                                       filter (\<lambda>kv. fst kv \<noteq> requestId) (w_refreshPromises w2) \<rparr>);
                         w4 = w3 \<lparr> w_auth := clearTokens (w_auth w3) \<rparr>
                     in (Some (Inl (case refreshError of
                                      Auth a \<Rightarrow> Auth a
                                    | Axios e \<Rightarrow> Axios error
                                    | Api e \<Rightarrow> Axios error)), w4))"

definition authResponse_onRejected ::
  "auth_env \<Rightarrow> (world \<Rightarrow> (auth_error + string) option \<times> world) \<Rightarrow>
   (request_config \<Rightarrow> world \<Rightarrow> outcome option \<times> world) \<Rightarrow> api_error \<Rightarrow>
   request_config \<Rightarrow> world \<Rightarrow> outcome option \<times> world" where
  "authResponse_onRejected env refreshToken axiosInstance error originalRequest w =
     (let status = err_response_status error in
      if status = Some 401 \<and> \<not> rq_retry originalRequest
      then handleUnauthorized env refreshToken axiosInstance error originalRequest w
      else
        let w1 = (if status = Some 403 then logAuth ''access_forbidden'' w else w)
        in (Some (Inl (Axios error)), w1))"

definition authResponse_onFulfilled ::
  "http_response \<Rightarrow> request_config \<Rightarrow> world \<Rightarrow> outcome option \<times> world" where
  "authResponse_onFulfilled response config w =
     (if truthy_str (rq_requestId config) \<and>
         the (rq_requestId config) \<in> fst ` set (w_refreshPromises w)
      then (Some (Inr response),
            w \<lparr> w_refreshPromises :=
                  filter (\<lambda>kv. fst kv \<noteq> the (rq_requestId config)) (w_refreshPromises w) \<rparr>)
      else (Some (Inr response), w))"

subsection \<open>The error-transform handler (\<open>interceptors/response.ts\<close>, \<open>errors/api-error.ts\<close>)\<close>

text \<open>
  The client registers the response handlers in the order retry metadata, rate limit,
  cache, auth, logging, error transform, and a rejection runs through their \<open>onRejected\<close>
  functions in that order.  The three before the auth handler and the logging handler
  pass the rejection on as they got it.  The last one replaces whatever error reaches it
  by \<open>ApiError.fromAxiosError(error)\<close>, which reads \<open>error.response\<close>, \<open>error.code\<close> and
  \<open>error.message\<close>.  \<open>error_object\<close> gives these fields for each kind of error: an
  \<open>AuthError\<close> and an \<open>ApiError\<close> have no \<open>response\<close>.
\<close>

definition getErrorCodeFromStatus :: "int \<Rightarrow> string" where
  "getErrorCodeFromStatus status =
     (if status = 400 then ''BAD_REQUEST''
      else if status = 401 then ''UNAUTHORIZED''
      else if status = 403 then ''FORBIDDEN''
      else if status = 404 then ''NOT_FOUND''
      else if status = 405 then ''METHOD_NOT_ALLOWED''
      else if status = 409 then ''CONFLICT''
      else if status = 429 then ''RATE_LIMITED''
      else if status = 500 then ''SERVER_ERROR''
      else if status = 502 \<or> status = 503 \<or> status = 504 then ''SERVICE_UNAVAILABLE''
      else if status \<ge> 400 \<and> status < 500 then ''API_ERROR''
      else if status \<ge> 500 then ''SERVER_ERROR''
      else ''UNKNOWN_ERROR'')"

text \<open>\<open>ErrorMessages[code]\<close> for the codes that \<open>fromAxiosError\<close> can compute.\<close>

definition ErrorMessages :: "string \<Rightarrow> string" where
  "ErrorMessages code =
     (if code = ''NETWORK_ERROR'' then ''Network connection failed''
      else if code = ''TIMEOUT_ERROR'' then ''Request timed out''
      else if code = ''UNAUTHORIZED'' then ''Access denied - authentication required''
      else if code = ''FORBIDDEN'' then ''Access denied - insufficient permissions''
      else if code = ''API_ERROR'' then ''API request failed''
      else if code = ''BAD_REQUEST'' then ''Invalid request parameters''
      else if code = ''NOT_FOUND'' then ''Resource not found''
      else if code = ''METHOD_NOT_ALLOWED'' then ''HTTP method not allowed''
      else if code = ''CONFLICT'' then ''Resource conflict''
      else if code = ''RATE_LIMITED'' then ''Too many requests - rate limit exceeded''
      else if code = ''SERVER_ERROR'' then ''Internal server error''
      else if code = ''SERVICE_UNAVAILABLE'' then ''Service temporarily unavailable''
      else ''An unknown error occurred'')"

fun error_object :: "failure \<Rightarrow> api_error" where
  "error_object (Axios e) = e"
| "error_object (Api e) = e"
| "error_object (Auth (AuthError message code status)) =
     \<lparr> err_code = Some code, err_response_status = None, err_status = status,
       err_message = message, err_data = None, err_response_message = None \<rparr>"

text \<open>The \<open>ApiError\<close> that \<open>fromAxiosError\<close> builds: its \<open>status\<close> and \<open>data\<close> are those of the
  response, and it has no \<open>response\<close> of its own.\<close>

definition ApiError_fromAxiosError :: "api_error \<Rightarrow> api_error" where
  "ApiError_fromAxiosError error =
     (let code = (case err_response_status error of
                    Some status \<Rightarrow> getErrorCodeFromStatus status
                  | None \<Rightarrow> if err_code error = Some ''ECONNABORTED'' then ''TIMEOUT_ERROR''
                            else ''NETWORK_ERROR'')
      in \<lparr> err_code = Some code, err_response_status = None,
           err_status = err_response_status error,
           err_message =
             (if truthy_str (err_response_message error) then the (err_response_message error)
              else if err_message error \<noteq> [] then err_message error
              else ErrorMessages code),
           err_data = (case err_response_status error of
                         Some status \<Rightarrow> err_data error | None \<Rightarrow> None),
           err_response_message = None \<rparr>)"

definition errorTransform_onRejected :: "failure \<Rightarrow> failure" where
  "errorTransform_onRejected error = Api (ApiError_fromAxiosError (error_object error))"

text \<open>What the response handlers of the client's instance make of a rejection: the auth
  handler, then the error transform.  When the auth handler resolves (a replay
  succeeded), the handlers after it return the response as it is.\<close>

definition response_onRejected ::
  "auth_env \<Rightarrow> (world \<Rightarrow> (auth_error + string) option \<times> world) \<Rightarrow>
   (request_config \<Rightarrow> world \<Rightarrow> outcome option \<times> world) \<Rightarrow> api_error \<Rightarrow>
   request_config \<Rightarrow> world \<Rightarrow> outcome option \<times> world" where
  "response_onRejected env refreshToken axiosInstance error originalRequest w =
     (case authResponse_onRejected env refreshToken axiosInstance error originalRequest w of
        (None, w1) \<Rightarrow> (None, w1)
      | (Some (Inr response), w1) \<Rightarrow> (Some (Inr response), w1)
      | (Some (Inl rejection), w1) \<Rightarrow> (Some (Inl (errorTransform_onRejected rejection)), w1))"

subsection \<open>The refresh as the interceptor awaits it\<close>

text \<open>
  A caller awaits \<open>authManager.refreshToken()\<close>: the call, the continuation of
  \<open>performTokenRefresh\<close> and, if it posts to the refresh endpoint, what the awaited post
  settles with (\<open>posted\<close>; \<open>None\<close>: it never settles, and neither does the refresh).  The
  post goes through the instance of the client, interceptors included.  When the refresh
  endpoint itself answers 401, the auth handler above runs for the post and awaits
  \<open>refreshToken()\<close>, which hands it the promise of the refresh in progress: that post
  never settles.
\<close>

definition refreshToken_await ::
  "auth_manager \<Rightarrow> (api_error + auth_response) option \<Rightarrow>
   (auth_error + string) option \<times> auth_manager" where
  "refreshToken_await mgr posted =
     (case refreshToken_call mgr of
        (Rejects e, m) \<Rightarrow> (Some (Inl e), m)
      | (Awaits p, m1) \<Rightarrow>
          let m2 = refresh_start m1
          in case am_op m2 of
               Posted q refreshToken \<Rightarrow>
                 (case posted of
                    None \<Rightarrow> (None, m2)
                  | Some answer \<Rightarrow>
                      let m3 = refresh_response m2 answer in (map_of (am_settled m3) p, m3))
             | _ \<Rightarrow> (map_of (am_settled m2) p, m2))"

definition authManager_refreshToken ::
  "(api_error + auth_response) option \<Rightarrow> world \<Rightarrow> (auth_error + string) option \<times> world" where
  "authManager_refreshToken posted w =
     (case refreshToken_await (w_auth w) posted of (r, m) \<Rightarrow> (r, w \<lparr> w_auth := m \<rparr>))"

subsection \<open>A second 401 after the replay\<close>

definition resp_ok :: http_response where
  "resp_ok = \<lparr> hr_status = 200, hr_statusText = ''OK'', hr_headers = [], hr_data = JObj [(''id'', JNum 1)], hr_fromCache = False \<rparr>"

definition err_401 :: api_error where
  "err_401 = \<lparr> err_code = Some ''ERR_BAD_REQUEST'', err_response_status = Some 401, err_status = None,
               err_message = ''Request failed with status code 401'', err_data = None,
               err_response_message = None \<rparr>"

definition demo_request :: request_config where
  "demo_request = \<lparr> rq_method = ''GET'', rq_url = ''/users/1'', rq_headers = [(''Authorization'', ''Bearer access-1'')],
      rq_retry = False, rq_skipRetry = False, rq_requestId = Some ''req_1'' \<rparr>"

definition replayed_request :: request_config where
  "replayed_request =
     demo_request \<lparr> rq_retry := True, rq_headers := [(''Authorization'', ''Bearer access-2'')],
                    rq_skipRetry := True \<rparr>"

definition new_tokens :: auth_response where
  "new_tokens = \<lparr> ar_accessToken = ''access-2'', ar_refreshToken = None, ar_tokenType = None, ar_expiresIn = None \<rparr>"

definition demo_env :: auth_env where
  "demo_env = \<lparr> env_tokenHeader = ''Authorization'', env_bearerPrefix = ''Bearer'' \<rparr>"

text \<open>A client that is logged in; a refresh endpoint that answers with new tokens; an
  instance that sends the replay and rejects it with the \<open>ApiError\<close> its handlers make of a
  second 401 (the request is marked, so the auth handler passes the 401 on to the error
  transform).\<close>

definition world_logged_in :: world where
  "world_logged_in =
     \<lparr> w_auth = auth_demo (Some ''refresh-1''), w_refreshPromises = [], w_log = [],
       w_replayed = [] \<rparr>"

definition refresh_answered :: "world \<Rightarrow> (auth_error + string) option \<times> world" where
  "refresh_answered = authManager_refreshToken (Some (Inr new_tokens))"

definition replay_rejected_401 :: "request_config \<Rightarrow> world \<Rightarrow> outcome option \<times> world" where
  "replay_rejected_401 rq w =
     (Some (Inl (errorTransform_onRejected (Axios err_401))), w \<lparr> w_replayed := w_replayed w @ [rq] \<rparr>)"

text \<open>The attempts that the retry manager makes.  Each passes the client's own request
  config, which the interceptor's mark (made on the copy that the instance works on)
  does not reach, and gets 401 from the server; \<open>attempts i\<close> is what the response handlers
  make of attempt \<open>i\<close> (from 0), and the world they leave.\<close>

fun attempts :: "nat \<Rightarrow> outcome option \<times> world" where
  "attempts 0 =
     response_onRejected demo_env refresh_answered replay_rejected_401 err_401 demo_request
       world_logged_in"
| "attempts (Suc i) =
     response_onRejected demo_env refresh_answered replay_rejected_401 err_401 demo_request
       (snd (attempts i))"

definition transformed_refresh_failure :: api_error where
  "transformed_refresh_failure =
     \<lparr> err_code = Some ''NETWORK_ERROR'', err_response_status = None, err_status = None,
       err_message = ''Failed to refresh authentication token'', err_data = None,
       err_response_message = None \<rparr>"

lemmas c2_defs = response_onRejected_def authResponse_onRejected_def handleUnauthorized_def
      performTokenRefreshAndRetry_def refresh_answered_def authManager_refreshToken_def
      refreshToken_await_def refreshToken_call_def refresh_start_def refresh_response_def
      settle_refresh_def setTokens_def clearTokens_def replay_rejected_401_def
      errorTransform_onRejected_def ApiError_fromAxiosError_def getErrorCodeFromStatus_def
      refresh_failed_def demo_env_def demo_request_def replayed_request_def world_logged_in_def
      auth_demo_def AuthManager_new_def new_tokens_def err_401_def the_requestId_def
      truthy_str_def truthy_num_def logAuth_def header_set_def transformed_refresh_failure_def
      Let_def

text \<open>
  Claim C2 at a request that the server answers with 401 before and after a successful
  refresh, on a client that retries (the defaults of \<open>RetryManager\<close>).  The auth handler
  marks the request, refreshes, replays it once and, when the replay is rejected, clears
  the credentials and raises the \<open>AuthError\<close> ``Failed to refresh authentication token''.
  The error-transform handler, which runs after the auth handler, replaces that
  \<open>AuthError\<close> by an \<open>ApiError\<close> with the code \<open>NETWORK_ERROR\<close> and no status, and the
  default retry condition accepts this code.  So the retry manager runs the request
  again: the flag \<open>skipRetry\<close> that the interceptor sets on the replayed request is not
  read on this path (\<open>ApiClient.executeWithRetry\<close> tests the options of the call).  Each
  further attempt is answered 401, finds no refresh token, replays nothing and ends in
  the same error.  With \<open>maxAttempts = 3\<close> the operation runs three times, the request is
  sent four times (three attempts and one replay), and the caller receives a
  \<open>RetryExhaustedError\<close>, not an \<open>AuthError\<close>; with retrying disabled it receives the
  \<open>ApiError\<close>.
\<close>

theorem C2_terminal_auth_error_is_retried:
  "fst (attempts 0) = Some (Inl (Api transformed_refresh_failure)) \<and>
   fst (attempts 1) = Some (Inl (Api transformed_refresh_failure)) \<and>
   fst (attempts 2) = Some (Inl (Api transformed_refresh_failure)) \<and>
   w_replayed (snd (attempts 0)) = [replayed_request] \<and>
   w_replayed (snd (attempts 2)) = [replayed_request] \<and>
   am_storage (w_auth (snd (attempts 0))) = \<lparr> st_token = None, st_refreshToken = None \<rparr> \<and>
   defaultRetryCondition (RetryManager_defaults exact_arith) transformed_refresh_failure \<and>
   fst (executeWithRetry exact_arith (RetryManager_defaults exact_arith) no_options
          (\<lambda>i. Inl transformed_refresh_failure :: api_error + http_response) (\<lambda>k. 0)
          (Some ''req_1'') (initial_retry_state exact_arith)) =
     Inl (RetryExhaustedError 3 transformed_refresh_failure (Some ''req_1'')) \<and>
   rs_invocations (snd (executeWithRetry exact_arith (RetryManager_defaults exact_arith) no_options
          (\<lambda>i. Inl transformed_refresh_failure :: api_error + http_response) (\<lambda>k. 0)
          (Some ''req_1'') (initial_retry_state exact_arith))) = 3"
proof -
  have r: "defaultRetryCondition (RetryManager_defaults exact_arith) transformed_refresh_failure"
    by (simp add: defaultRetryCondition_def transformed_refresh_failure_def js_or_num_def
        truthy_num_def truthy_str_def custom_retry_codes_def)
  have a: "fst (attempts 0) = Some (Inl (Api transformed_refresh_failure))"
    "fst (attempts 1) = Some (Inl (Api transformed_refresh_failure))"
    "fst (attempts 2) = Some (Inl (Api transformed_refresh_failure))"
    "w_replayed (snd (attempts 0)) = [replayed_request]"
    "w_replayed (snd (attempts 2)) = [replayed_request]"
    "am_storage (w_auth (snd (attempts 0))) = \<lparr> st_token = None, st_refreshToken = None \<rparr>"
    by (simp_all add: numeral_2_eq_2 c2_defs)
  have run: "executeWithRetry exact_arith (RetryManager_defaults exact_arith) no_options
          (\<lambda>i. Inl transformed_refresh_failure :: api_error + http_response) (\<lambda>k. 0)
          (Some ''req_1'') (initial_retry_state exact_arith) =
        retry_loop exact_arith (RetryManager_defaults exact_arith) no_options
          (\<lambda>i. Inl transformed_refresh_failure) (\<lambda>k. 0) (Some ''req_1'') 3
          (defaultRetryCondition (RetryManager_defaults exact_arith)) 1 None
          (initial_retry_state exact_arith)"
    by (simp add: executeWithRetry_def RetryManager_defaults_def no_options_def
        resolve_maxAttempts_def resolve_retryCondition_def)
  have "\<forall>j\<le>2. \<exists>e. (\<lambda>i. Inl transformed_refresh_failure :: api_error + http_response)
            (rs_invocations (initial_retry_state exact_arith) + j) = Inl e \<and>
          defaultRetryCondition (RetryManager_defaults exact_arith) e"
    using r by simp
  from retry_loop_all_retryable [where a = 1 and maxA = 3 and k = 2
      and operation = "\<lambda>i. Inl transformed_refresh_failure :: api_error + http_response"
      and st = "initial_retry_state exact_arith"
      and rcond = "defaultRetryCondition (RetryManager_defaults exact_arith)"
      and cfg = "RetryManager_defaults exact_arith" and options = no_options
      and rnd = "\<lambda>k. 0" and rid = "Some ''req_1''" and le = None and ar = exact_arith, OF _ _ _ this]
  have l: "fst (retry_loop exact_arith (RetryManager_defaults exact_arith) no_options
          (\<lambda>i. Inl transformed_refresh_failure :: api_error + http_response) (\<lambda>k. 0) (Some ''req_1'') 3
          (defaultRetryCondition (RetryManager_defaults exact_arith)) 1 None
          (initial_retry_state exact_arith)) =
        Inl (RetryExhaustedError 3 transformed_refresh_failure (Some ''req_1''))"
    "rs_invocations (snd (retry_loop exact_arith (RetryManager_defaults exact_arith) no_options
          (\<lambda>i. Inl transformed_refresh_failure :: api_error + http_response) (\<lambda>k. 0) (Some ''req_1'') 3
          (defaultRetryCondition (RetryManager_defaults exact_arith)) 1 None
          (initial_retry_state exact_arith))) = 3"
    by (simp_all add: initial_retry_state_def)
  show ?thesis
    unfolding run using a r l by simp
qed

section \<open>Request orchestrator (\<open>client.ts\<close>, \<open>utils/validators.ts\<close>, \<open>interceptors/response.ts\<close>)\<close>

text \<open>
  One request through \<open>ApiClient.request\<close>, run to completion.  The transport with its
  interceptors is the sequence \<open>transport\<close> of the outcomes of its invocations, the
  errors being \<open>ApiError\<close> objects (the error-transform interceptor makes them so).  The
  cache interceptor never alters or fails a response, and only the last attempt of a
  retry run can succeed, so its write to the cache is applied to the response that the
  retry run returns.  The result is \<open>None\<close> when the request joined a promise of another
  caller that has not settled.
\<close>

record 'n api_request_config =
  arc_headers :: "(string \<times> json) list option"
  arc_data :: "json option"
  arc_params :: "(string \<times> json) list option"
  arc_skipCache :: bool
  arc_skipRetry :: bool
  arc_retry :: "'n retry_options option"
  arc_cache_ttl :: "int option"

record cached_payload =
  cp_status :: int
  cp_statusText :: string
  cp_headers :: "(string \<times> string) list"
  cp_data :: json

datatype log_event = LogCacheHit string | LogCacheMiss string | LogCacheSet string int | LogWarn string

datatype validation_error = ValidationError (ve_message: string) (ve_field: string)

text \<open>What \<open>request\<close> rejects with: an \<open>ApiError\<close> passed through, a
  \<open>RetryExhaustedError\<close> passed through, or the \<open>new ApiError({ message })\<close> that its
  catch block builds from any other error.\<close>

datatype request_error =
    ApiErrorOf api_error
  | RetryExhaustedOf nat api_error "string option"
  | WrappedApiError string

record ('s, 'n) client_config =
  cf_cache :: "cached_payload cache_config"
  cf_adapter :: "'s cache_adapter"
  cf_arith :: "'n arith"
  cf_retry :: "'n retry_config"

record ('s, 'n) client_state =
  cl_cache :: "'s cache_state"
  cl_dedup :: "(retry_failure, http_response) dedup_manager"
  cl_retry :: "'n retry_state"
  cl_log :: "log_event list"

subsection \<open>Validators\<close>

definition js_whitespace :: "char \<Rightarrow> bool" where
  "js_whitespace c = (c \<in> set [CHR 0x20, CHR 0x09, CHR 0x0A, CHR 0x0B, CHR 0x0C, CHR 0x0D])"

definition validateUrl :: "string \<Rightarrow> validation_error + unit" where
  "validateUrl url =
     (if url = [] then Inl (ValidationError ''URL is required and must be a string'' ''url'')
      else if filter (\<lambda>c. \<not> js_whitespace c) url = []
      then Inl (ValidationError ''URL cannot be empty'' ''url'')
      else Inr ())"

definition validMethods :: "string list" where
  "validMethods = [''GET'', ''POST'', ''PUT'', ''PATCH'', ''DELETE'', ''HEAD'', ''OPTIONS'']"

definition validateMethod :: "string \<Rightarrow> validation_error + unit" where
  "validateMethod meth =
     (if toUpperCase meth \<notin> set validMethods
      then Inl (ValidationError
                  (''Invalid HTTP method. Must be one of: '' @ join '', '' validMethods) ''method'')
      else Inr ())"

fun header_value_ok :: "json \<Rightarrow> bool" where
  "header_value_ok (JStr s) = True"
| "header_value_ok (JNum n) = True"
| "header_value_ok v = False"

definition validateHeaders :: "(string \<times> json) list option \<Rightarrow> validation_error + unit" where
  "validateHeaders headers =
     (case headers of
        None \<Rightarrow> Inr ()
      | Some hs \<Rightarrow>
          if list_all (\<lambda>kv. header_value_ok (snd kv)) hs then Inr ()
          else Inl (ValidationError ''Header values must be strings or numbers'' ''headers''))"

definition methodsWithBody :: "string list" where
  "methodsWithBody = [''POST'', ''PUT'', ''PATCH'']"

definition validateData :: "json option \<Rightarrow> string \<Rightarrow> validation_error + unit" where
  "validateData payload meth =
     (if toUpperCase meth \<notin> set methodsWithBody \<and> payload \<noteq> None
      then Inl (ValidationError (toUpperCase meth @ '' requests should not have a body'') ''data'')
      else Inr ())"

text \<open>The four validations at the head of \<open>request\<close>, in order; the first failure is
  thrown.\<close>

definition validate_request ::
  "string \<Rightarrow> string \<Rightarrow> 'n api_request_config \<Rightarrow> validation_error + unit" where
  "validate_request meth url config =
     (case validateUrl url of
        Inl e \<Rightarrow> Inl e
      | Inr u1 \<Rightarrow>
          (case validateMethod meth of
             Inl e \<Rightarrow> Inl e
           | Inr u2 \<Rightarrow>
               (case validateHeaders (arc_headers config) of
                  Inl e \<Rightarrow> Inl e
                | Inr u3 \<Rightarrow> validateData (arc_data config) meth)))"

subsection \<open>Cache probe and cache write\<close>

definition tryGetFromCache ::
  "('s, 'n) client_config \<Rightarrow> int \<Rightarrow> string \<Rightarrow> string \<Rightarrow> 'n api_request_config \<Rightarrow>
   ('s, 'n) client_state \<Rightarrow> http_response option \<times> ('s, 'n) client_state" where
  "tryGetFromCache cfg now meth url config st =
     (if arc_skipCache config \<or> \<not> cc_enabled (cf_cache cfg) \<or> meth \<noteq> ''GET'' then (None, st)
      else
        let cacheKey = buildCacheKey url meth (arc_params config) (arc_data config) in
        case CacheManager_get (cf_cache cfg) (cf_adapter cfg) now cacheKey (cl_cache st) of
          (Inr (Some cachedData), c1) \<Rightarrow>
            (Some \<lparr> hr_status = cp_status cachedData, hr_statusText = cp_statusText cachedData,
                    hr_headers = cp_headers cachedData, hr_data = cp_data cachedData,
                    hr_fromCache = True \<rparr>,
             st \<lparr> cl_cache := c1, cl_log := cl_log st @ [LogCacheHit cacheKey] \<rparr>)
        | (Inr None, c1) \<Rightarrow>
            (None, st \<lparr> cl_cache := c1, cl_log := cl_log st @ [LogCacheMiss cacheKey] \<rparr>)
        | (Inl error, c1) \<Rightarrow>
            (None, st \<lparr> cl_cache := c1, cl_log := cl_log st @ [LogWarn ''Cache lookup failed''] \<rparr>))"

definition shouldCache :: "http_response \<Rightarrow> string \<Rightarrow> bool" where
  "shouldCache response meth =
     (toUpperCase meth = ''GET'' \<and> hr_status response \<ge> 200 \<and> hr_status response < 300)"

text \<open>\<open>createCacheInterceptor().onFulfilled\<close>: the response it returns, and the state.\<close>

definition cacheInterceptor_onFulfilled ::
  "('s, 'n) client_config \<Rightarrow> int \<Rightarrow> string \<Rightarrow> string \<Rightarrow> 'n api_request_config \<Rightarrow>
   http_response \<Rightarrow> ('s, 'n) client_state \<Rightarrow> http_response \<times> ('s, 'n) client_state" where
  "cacheInterceptor_onFulfilled cfg now meth url config response st =
     (if \<not> arc_skipCache config \<and> cc_enabled (cf_cache cfg) \<and> shouldCache response meth then
        let cacheKey = buildCacheKey url (toUpperCase meth) (arc_params config) (arc_data config)
        in case CacheManager_set (cf_cache cfg) (cf_adapter cfg) now cacheKey
                  \<lparr> cp_status = hr_status response, cp_statusText = hr_statusText response,
                    cp_headers = hr_headers response, cp_data = hr_data response \<rparr>
                  (arc_cache_ttl config) (cl_cache st) of
             (Inr u, c1) \<Rightarrow>
               (response,
                st \<lparr> cl_cache := c1,
                     cl_log := cl_log st @
                       [LogCacheSet cacheKey (case arc_cache_ttl config of Some t \<Rightarrow> t | None \<Rightarrow> 0)] \<rparr>)
           | (Inl error, c1) \<Rightarrow>
               (response,
                st \<lparr> cl_cache := c1, cl_log := cl_log st @ [LogWarn ''Failed to cache response''] \<rparr>)
      else (response, st))"

subsection \<open>Execution\<close>

text \<open>\<open>ApiClient.executeWithRetry\<close>: the retry manager is bypassed when the call says
  \<open>skipRetry\<close> or retrying is disabled; \<open>rid\<close> is the id from \<open>createRequestId()\<close>.\<close>

definition client_executeWithRetry ::
  "('s, 'n) client_config \<Rightarrow> (nat \<Rightarrow> api_error + http_response) \<Rightarrow> (nat \<Rightarrow> 'n) \<Rightarrow> string \<Rightarrow>
   'n api_request_config \<Rightarrow> 'n retry_state \<Rightarrow>
   (retry_failure + http_response) \<times> 'n retry_state" where
  "client_executeWithRetry cfg transport rnd rid config rs =
     (if arc_skipRetry config \<or> \<not> rc_enabled (cf_retry cfg) then
        (case transport (rs_invocations rs) of
           Inl error \<Rightarrow> (Inl (Thrown error), rs \<lparr> rs_invocations := rs_invocations rs + 1 \<rparr>)
         | Inr response \<Rightarrow> (Inr response, rs \<lparr> rs_invocations := rs_invocations rs + 1 \<rparr>))
      else
        executeWithRetry (cf_arith cfg) (cf_retry cfg)
          (case arc_retry config of Some options \<Rightarrow> options | None \<Rightarrow> no_options)
          transport rnd (Some rid) rs)"

text \<open>The closure that \<open>request\<close> hands to the single-flight table.\<close>

definition request_executor ::
  "('s, 'n) client_config \<Rightarrow> (nat \<Rightarrow> api_error + http_response) \<Rightarrow> (nat \<Rightarrow> 'n) \<Rightarrow> string \<Rightarrow>
   int \<Rightarrow> string \<Rightarrow> string \<Rightarrow> 'n api_request_config \<Rightarrow> ('s, 'n) client_state \<Rightarrow>
   (retry_failure + http_response) \<times> ('s, 'n) client_state" where
  "request_executor cfg transport rnd rid now meth url config st =
     (case tryGetFromCache cfg now meth url config st of
        (Some response, st1) \<Rightarrow> (Inr response, st1)
      | (None, st1) \<Rightarrow>
          (case client_executeWithRetry cfg transport rnd rid config (cl_retry st1) of
             (Inl error, rs) \<Rightarrow> (Inl error, st1 \<lparr> cl_retry := rs \<rparr>)
           | (Inr response, rs) \<Rightarrow>
               (case cacheInterceptor_onFulfilled cfg now meth url config response
                       (st1 \<lparr> cl_retry := rs \<rparr>) of
                  (response1, st2) \<Rightarrow> (Inr response1, st2))))"

text \<open>The catch block of \<open>request\<close>.\<close>

definition TypeError_message :: string where
  "TypeError_message = ''Cannot read properties of undefined (reading 'message')''"

fun rethrow :: "retry_failure dedup_error \<Rightarrow> request_error" where
  "rethrow (Original (Thrown e)) = ApiErrorOf e"
| "rethrow (Original (RetryExhaustedError n e rid)) = RetryExhaustedOf n e rid"
| "rethrow (Original TypeError) = WrappedApiError TypeError_message"
| "rethrow Cancelled = WrappedApiError ''Request was cancelled due to deduplication''"

definition request ::
  "('s, 'n) client_config \<Rightarrow> (nat \<Rightarrow> api_error + http_response) \<Rightarrow> (nat \<Rightarrow> 'n) \<Rightarrow> string \<Rightarrow>
   int \<Rightarrow> string \<Rightarrow> string \<Rightarrow> 'n api_request_config \<Rightarrow> ('s, 'n) client_state \<Rightarrow>
   (request_error + http_response) option \<times> ('s, 'n) client_state" where
  "request cfg transport rnd rid now meth url config st =
     (case validate_request meth url config of
        Inl verr \<Rightarrow> (Some (Inl (WrappedApiError (ve_message verr))), st)
      | Inr u \<Rightarrow>
          (case executeRequest (cl_dedup st) now meth url (arc_data config) (arc_params config) of
             (h, d1) \<Rightarrow>
               if dm_executor_calls d1 = dm_executor_calls (cl_dedup st) then
                 (map_option (map_sum rethrow id) (await_d d1 h), st \<lparr> cl_dedup := d1 \<rparr>)
               else
                 (case request_executor cfg transport rnd rid now meth url config
                         (st \<lparr> cl_dedup := d1 \<rparr>) of
                    (out, st1) \<Rightarrow>
                      (Some (map_sum rethrow id (managed_outcome (cl_dedup st1) h out)),
                       st1 \<lparr> cl_dedup := settle (cl_dedup st1) h out \<rparr>))))"


subsection \<open>Cache failures do not abort the request\<close>

definition failing_adapter :: "unit cache_adapter" where
  "failing_adapter =
     \<lparr> ad_get = (\<lambda>key s. (Inl ''connection lost'', s)),
       ad_set = (\<lambda>key v s. (Inl ''connection lost'', s)),
       ad_delete = (\<lambda>key s. (Inl ''connection lost'', s)),
       ad_size = (\<lambda>s. (Inl ''connection lost'', s)) \<rparr>"

definition demo_client_config :: "'s cache_adapter \<Rightarrow> ('s, real) client_config" where
  "demo_client_config ad =
     \<lparr> cf_cache = \<lparr> cc_enabled = True, cc_defaultTTL = 300000, cc_maxSize = 1000,
                    cc_keyPrefix = ''api_cache_'',
                    cc_serialize = (\<lambda>p. JSON_stringify (cp_data p)),
                    cc_deserialize = (\<lambda>s. \<lparr> cp_status = 200, cp_statusText = ''OK'',
                                             cp_headers = [], cp_data = JStr s \<rparr>) \<rparr>,
       cf_adapter = ad,
       cf_arith = exact_arith,
       cf_retry = (RetryManager_defaults exact_arith) \<lparr> rc_enabled := False \<rparr> \<rparr>"

definition demo_client_state :: "'s \<Rightarrow> ('s, real) client_state" where
  "demo_client_state store =
     \<lparr> cl_cache = \<lparr> cm_store = store,
                    cm_stats = \<lparr> cs_hits = 0, cs_misses = 0, cs_sets = 0, cs_deletes = 0,
                                 cs_size = 0, cs_hitRate = 0 \<rparr> \<rparr>,
       cl_dedup = DeduplicationManager_new
                    \<lparr> dc_enabled = None, dc_timeout = None, dc_keyGenerator = None \<rparr>,
       cl_retry = initial_retry_state exact_arith,
       cl_log = [] \<rparr>"

definition plain_request :: "json option \<Rightarrow> 'n api_request_config" where
  "plain_request body =
     \<lparr> arc_headers = None, arc_data = body, arc_params = None, arc_skipCache = False,
       arc_skipRetry = False, arc_retry = None, arc_cache_ttl = None \<rparr>"

lemma toUpperCase_GET: "toUpperCase ''GET'' = ''GET''"
  by code_simp

lemma demo_cache_key: "buildCacheKey ''/users/1'' ''GET'' None None = ''GET|/users/1''"
  by code_simp


lemma cacheInterceptor_response_unchanged:
  "fst (cacheInterceptor_onFulfilled cfg now meth url config response st) = response"
  by (simp add: cacheInterceptor_onFulfilled_def Let_def split: prod.splits sum.splits)

lemma cacheInterceptor_retry_unchanged:
  "cl_retry (snd (cacheInterceptor_onFulfilled cfg now meth url config response st)) = cl_retry st"
  by (simp add: cacheInterceptor_onFulfilled_def Let_def split: prod.splits sum.splits)

text \<open>
  Claim C9.  Read path: when the cache lookup of a cache-eligible request raises an
  error, \<open>tryGetFromCache\<close> logs a warning and returns null, as on a miss, and the
  executor goes on to the (retry-wrapped) execution, whose result is the result of the
  request.  Write path: the cache interceptor returns the response it was given,
  unchanged, whatever the cache does; when the cache write raises an error the
  interceptor logs a warning.
\<close>

theorem C9_cache_failures_swallowed:
  assumes "key = buildCacheKey url meth (arc_params config) (arc_data config)"
    and "wkey = buildCacheKey url (toUpperCase meth) (arc_params config) (arc_data config)"
    and "payload = \<lparr> cp_status = hr_status response, cp_statusText = hr_statusText response,
                    cp_headers = hr_headers response, cp_data = hr_data response \<rparr>"
  shows "(\<not> arc_skipCache config \<and> cc_enabled (cf_cache cfg) \<and> meth = ''GET'' \<and>
          fst (CacheManager_get (cf_cache cfg) (cf_adapter cfg) now key (cl_cache st)) = Inl err \<longrightarrow>
            fst (tryGetFromCache cfg now meth url config st) = None \<and>
            cl_log (snd (tryGetFromCache cfg now meth url config st)) =
              cl_log st @ [LogWarn ''Cache lookup failed''] \<and>
            fst (request_executor cfg transport rnd rid now meth url config st) =
              fst (client_executeWithRetry cfg transport rnd rid config (cl_retry st))) \<and>
         fst (cacheInterceptor_onFulfilled cfg now meth url config response st) = response \<and>
         (\<not> arc_skipCache config \<and> cc_enabled (cf_cache cfg) \<and> shouldCache response meth \<and>
          fst (CacheManager_set (cf_cache cfg) (cf_adapter cfg) now wkey payload
                 (arc_cache_ttl config) (cl_cache st)) = Inl err \<longrightarrow>
            cl_log (snd (cacheInterceptor_onFulfilled cfg now meth url config response st)) =
              cl_log st @ [LogWarn ''Failed to cache response''])"
proof (intro conjI impI)
  assume a: "\<not> arc_skipCache config \<and> cc_enabled (cf_cache cfg) \<and> meth = ''GET'' \<and>
          fst (CacheManager_get (cf_cache cfg) (cf_adapter cfg) now key (cl_cache st)) = Inl err"
  obtain c1 where g: "CacheManager_get (cf_cache cfg) (cf_adapter cfg) now key (cl_cache st) = (Inl err, c1)"
    using a by (cases "CacheManager_get (cf_cache cfg) (cf_adapter cfg) now key (cl_cache st)") auto
  have t: "tryGetFromCache cfg now meth url config st =
             (None, st \<lparr> cl_cache := c1, cl_log := cl_log st @ [LogWarn ''Cache lookup failed''] \<rparr>)"
    using a g assms(1) by (simp add: tryGetFromCache_def Let_def)
  show "fst (tryGetFromCache cfg now meth url config st) = None"
    and "cl_log (snd (tryGetFromCache cfg now meth url config st)) = cl_log st @ [LogWarn ''Cache lookup failed'']"
    by (simp_all add: t)
  show "fst (request_executor cfg transport rnd rid now meth url config st) =
              fst (client_executeWithRetry cfg transport rnd rid config (cl_retry st))"
    by (cases "client_executeWithRetry cfg transport rnd rid config (cl_retry st)")
       (auto simp add: request_executor_def t split: sum.splits prod.splits
          dest: arg_cong [where f = fst] simp: cacheInterceptor_response_unchanged)
next
  show "fst (cacheInterceptor_onFulfilled cfg now meth url config response st) = response"
    by (rule cacheInterceptor_response_unchanged)
next
  assume a: "\<not> arc_skipCache config \<and> cc_enabled (cf_cache cfg) \<and> shouldCache response meth \<and>
          fst (CacheManager_set (cf_cache cfg) (cf_adapter cfg) now wkey payload
                 (arc_cache_ttl config) (cl_cache st)) = Inl err"
  then obtain c1 where g: "CacheManager_set (cf_cache cfg) (cf_adapter cfg) now wkey payload
                 (arc_cache_ttl config) (cl_cache st) = (Inl err, c1)"
    by (cases "CacheManager_set (cf_cache cfg) (cf_adapter cfg) now wkey payload
                 (arc_cache_ttl config) (cl_cache st)") auto
  show "cl_log (snd (cacheInterceptor_onFulfilled cfg now meth url config response st)) =
              cl_log st @ [LogWarn ''Failed to cache response'']"
    using a g assms(2,3) by (simp add: cacheInterceptor_onFulfilled_def Let_def)
qed


theorem C9_cache_failures_swallowed_witness:
  "fst (tryGetFromCache (demo_client_config failing_adapter) 1000 ''GET'' ''/users/1''
          (plain_request None) (demo_client_state ())) = None \<and>
   cl_log (snd (tryGetFromCache (demo_client_config failing_adapter) 1000 ''GET'' ''/users/1''
          (plain_request None) (demo_client_state ()))) = [LogWarn ''Cache lookup failed''] \<and>
   fst (request_executor (demo_client_config failing_adapter) (\<lambda>i. Inr resp_ok) (\<lambda>k. 0) ''req_1''
          1000 ''GET'' ''/users/1'' (plain_request None) (demo_client_state ())) = Inr resp_ok \<and>
   fst (cacheInterceptor_onFulfilled (demo_client_config failing_adapter) 1000 ''GET'' ''/users/1''
          (plain_request None) resp_ok (demo_client_state ())) = resp_ok \<and>
   cl_log (snd (cacheInterceptor_onFulfilled (demo_client_config failing_adapter) 1000 ''GET''
          ''/users/1'' (plain_request None) resp_ok (demo_client_state ()))) =
     [LogWarn ''Failed to cache response'']"
proof -
  let ?cfg = "demo_client_config failing_adapter"
  let ?st = "demo_client_state ()"
  let ?rq = "plain_request None :: real api_request_config"
  let ?payload = "\<lparr> cp_status = hr_status resp_ok, cp_statusText = hr_statusText resp_ok,
                    cp_headers = hr_headers resp_ok, cp_data = hr_data resp_ok \<rparr>"
  have k: "''GET|/users/1'' = buildCacheKey ''/users/1'' ''GET'' (arc_params ?rq)
             (arc_data ?rq)"
    by (simp add: plain_request_def demo_cache_key)
  have wk: "''GET|/users/1'' = buildCacheKey ''/users/1'' (toUpperCase ''GET'')
             (arc_params ?rq) (arc_data ?rq)"
    by (simp add: plain_request_def demo_cache_key toUpperCase_GET)
  have flags: "\<not> arc_skipCache ?rq" "cc_enabled (cf_cache ?cfg)"
    "shouldCache resp_ok ''GET''"
    by (simp_all add: plain_request_def demo_client_config_def shouldCache_def toUpperCase_GET
        resp_ok_def)
  have g: "fst (CacheManager_get (cf_cache ?cfg) (cf_adapter ?cfg) 1000 ''GET|/users/1''
                 (cl_cache ?st)) = Inl (CacheError ''Failed to get cache entry: connection lost'')"
    by (simp add: CacheManager_get_def demo_client_config_def failing_adapter_def Let_def)
  have w: "fst (CacheManager_set (cf_cache ?cfg) (cf_adapter ?cfg) 1000 ''GET|/users/1'' ?payload
                 (arc_cache_ttl ?rq) (cl_cache ?st)) =
             Inl (CacheError ''Failed to set cache entry: connection lost'')"
    by (simp add: CacheManager_set_def demo_client_config_def failing_adapter_def Let_def)
  have run: "fst (client_executeWithRetry ?cfg (\<lambda>i. Inr resp_ok) (\<lambda>k. 0) ''req_1''
                 ?rq (cl_retry ?st)) = Inr resp_ok"
    by (simp add: client_executeWithRetry_def demo_client_config_def RetryManager_defaults_def)
  note th1 = C9_cache_failures_swallowed [OF k wk refl, of ?cfg 1000 ?st
      "CacheError ''Failed to get cache entry: connection lost''" "\<lambda>i. Inr resp_ok" "\<lambda>k. 0"
      "''req_1''" resp_ok]
  note th2 = C9_cache_failures_swallowed [OF k wk refl, of ?cfg 1000 ?st
      "CacheError ''Failed to set cache entry: connection lost''" "\<lambda>i. Inr resp_ok" "\<lambda>k. 0"
      "''req_1''" resp_ok]
  from th1 flags g run th2 w show ?thesis
    by (simp add: demo_client_state_def)
qed


subsection \<open>A body on a method that takes none\<close>

lemma validate_request_body:
  assumes "validateUrl url = Inr ()" and "validateMethod meth = Inr ()"
    and "validateHeaders (arc_headers config) = Inr ()"
    and "toUpperCase meth \<notin> set methodsWithBody" and "arc_data config \<noteq> None"
  shows "validate_request meth url config =
           Inl (ValidationError (toUpperCase meth @ '' requests should not have a body'') ''data'')"
  using assms by (simp add: validate_request_def validateData_def)

text \<open>Such a request never reaches the single-flight table, the cache or the transport:
  it is rejected and the state of the client is what it was.\<close>

lemma request_rejects_body:
  assumes "toUpperCase meth \<notin> set methodsWithBody" and "arc_data config \<noteq> None"
  shows "\<exists>msg. request cfg transport rnd rid now meth url config st =
                 (Some (Inl (WrappedApiError msg)), st)"
  using assms
  by (auto simp add: request_def validate_request_def validateData_def split: sum.splits)


text \<open>
  Claim C10 at \<open>request('GET', '/users', { data: {a: 1} })\<close>.  The validator raises a
  \<open>ValidationError\<close>, which is not an \<open>ApiError\<close> (it extends \<open>BaseApiError\<close>) and is
  not a \<open>RetryExhaustedError\<close>, so the catch block of \<open>request\<close> replaces it by a new,
  generic \<open>ApiError\<close> that keeps only its message.  The state is unchanged.
\<close>

theorem C10_body_on_get_rejected_as_generic_ApiError:
  "request cfg transport rnd rid now ''GET'' ''/users''
     (plain_request (Some (JObj [(''a'', JNum 1)]))) st =
   (Some (Inl (WrappedApiError ''GET requests should not have a body'')), st)"
  by (simp add: request_def validate_request_def validateUrl_def validateMethod_def
      validateHeaders_def validateData_def plain_request_def toUpperCase_GET validMethods_def
      methodsWithBody_def js_whitespace_def)


end
